theory Spec2Isabelle
  imports Complex_Main "HOL-Library.Word" "HOL-Library.AList"
begin

section \<open>Strings\<close>

text \<open>
  JavaScript strings are modelled as \<^typ>\<open>string\<close>; a character is one code unit
  (below 256). \<open>slice\<close> is \<^verbatim>\<open>String.prototype.slice(a, b)\<close> for the non-negative arguments
  the code passes to it.
\<close>

definition slice :: "nat \<Rightarrow> nat \<Rightarrow> string \<Rightarrow> string" where
  "slice a b s = take (b - a) (drop a s)"

definition is_space :: "char \<Rightarrow> bool" where
  \<comment> \<open>white space and line terminators among the code units below 256\<close>
  "is_space c = (of_char c \<in> {9, 10, 11, 12, 13, 32, 160 :: nat})"

definition trim :: "string \<Rightarrow> string" where
  "trim s = rev (dropWhile is_space (rev (dropWhile is_space s)))"

definition lower :: "char \<Rightarrow> char" where
  \<comment> \<open>the letters A to Z, and the capital letters of Latin-1\<close>
  "lower c =
     (let n = of_char c :: nat in
      if (65 \<le> n \<and> n \<le> 90) \<or> (192 \<le> n \<and> n \<le> 222 \<and> n \<noteq> 215)
      then char_of (n + 32) else c)"

definition toLowerCase :: "string \<Rightarrow> string" where
  "toLowerCase s = map lower s"

fun starts_with :: "string \<Rightarrow> string \<Rightarrow> bool" where
  "starts_with s [] = True"
| "starts_with [] (k # ks) = False"
| "starts_with (c # cs) (k # ks) = (c = k \<and> starts_with cs ks)"

fun str_includes :: "string \<Rightarrow> string \<Rightarrow> bool" where
  \<comment> \<open>\<^verbatim>\<open>String.prototype.includes\<close>\<close>
  "str_includes [] k = (k = [])"
| "str_includes (c # cs) k = (starts_with (c # cs) k \<or> str_includes cs k)"

definition is_digit :: "char \<Rightarrow> bool" where
  \<comment> \<open>the class \<^verbatim>\<open>\d\<close> of a regular expression without the unicode flag\<close>
  "is_digit c = (c \<in> set ''0123456789'')"

section \<open>The doctor finder component: formatPhone\<close>

text \<open>
  \<^verbatim>\<open>
  const formatPhone = (phone: string) => {
    if (!phone || phone === "Not available") return phone;
    const cleaned = phone.replace(/\D/g, "");
    if (cleaned.length === 10) {
      return `(${cleaned.slice(0, 3)}) ${cleaned.slice(3, 6)}-${cleaned.slice(6)}`;
    }
    return phone;
  };
  \<close>
\<close>

definition formatPhone :: "string \<Rightarrow> string" where
  "formatPhone phone =
     (if phone = [] \<or> phone = ''Not available'' then phone
      else let cleaned = filter is_digit phone in
        if length cleaned = 10
        then ''('' @ slice 0 3 cleaned @ '') '' @ slice 3 6 cleaned @ ''-'' @ drop 6 cleaned
        else phone)"

section \<open>JavaScript values\<close>

text \<open>
  The handlers read request bodies and provider payloads of type \<^verbatim>\<open>any\<close>, so the
  model covers every JSON value, and \<^verbatim>\<open>undefined\<close> for what a missing property reads
  as. An object is an association list read with \<open>map_of\<close> (a repeated key denotes its
  first binding). An exception is an \<^verbatim>\<open>Error\<close> with its message; the messages of
  errors raised by the engine are abbreviated.

  \<open>js_prop v k\<close> is \<^verbatim>\<open>v.k\<close> on a value that is neither \<^verbatim>\<open>null\<close> nor
  \<^verbatim>\<open>undefined\<close>, for the keys that the code reads (none of them is a property of a
  prototype, apart from \<open>length\<close>); \<open>js_get\<close> adds the \<^verbatim>\<open>TypeError\<close> of a property
  read on \<^verbatim>\<open>null\<close> or \<^verbatim>\<open>undefined\<close>, and \<open>opt_get\<close> is the optional chain
  \<^verbatim>\<open>v?.k\<close>.
\<close>

datatype jsv =
    JUndefined
  | JNull
  | JBool bool
  | JNum rat
  | JStr string
  | JArr "jsv list"
  | JObj "(string \<times> jsv) list"

datatype exn = JsError string | JsTypeError string | JsSyntaxError string

fun message :: "exn \<Rightarrow> string" where
  "message (JsError m) = m"
| "message (JsTypeError m) = m"
| "message (JsSyntaxError m) = m"

fun truthy :: "jsv \<Rightarrow> bool" where
  "truthy JUndefined = False"
| "truthy JNull = False"
| "truthy (JBool b) = b"
| "truthy (JNum n) = (n \<noteq> 0)"
| "truthy (JStr s) = (s \<noteq> [])"
| "truthy (JArr xs) = True"
| "truthy (JObj fs) = True"

fun nullish :: "jsv \<Rightarrow> bool" where
  "nullish JUndefined = True"
| "nullish JNull = True"
| "nullish v = False"

fun is_string :: "jsv \<Rightarrow> bool" where
  "is_string (JStr s) = True"
| "is_string v = False"

fun js_prop :: "jsv \<Rightarrow> string \<Rightarrow> jsv" where
  "js_prop (JObj fs) k = (case map_of fs k of None \<Rightarrow> JUndefined | Some v \<Rightarrow> v)"
| "js_prop (JArr xs) k = (if k = ''length'' then JNum (of_nat (length xs)) else JUndefined)"
| "js_prop (JStr s) k = (if k = ''length'' then JNum (of_nat (length s)) else JUndefined)"
| "js_prop v k = JUndefined"

definition js_get :: "jsv \<Rightarrow> string \<Rightarrow> exn + jsv" where
  "js_get v k =
     (if nullish v then Inl (JsTypeError (''Cannot read properties of null or undefined (reading '' @ k @ '')''))
      else Inr (js_prop v k))"

definition opt_get :: "jsv \<Rightarrow> string \<Rightarrow> jsv" where
  "opt_get v k = (if nullish v then JUndefined else js_prop v k)"

fun index0 :: "jsv \<Rightarrow> jsv" where
  "index0 (JArr xs) = (case xs of [] \<Rightarrow> JUndefined | x # _ \<Rightarrow> x)"
| "index0 (JStr s) = (case s of [] \<Rightarrow> JUndefined | c # _ \<Rightarrow> JStr [c])"
| "index0 (JObj fs) = (case map_of fs ''0'' of None \<Rightarrow> JUndefined | Some v \<Rightarrow> v)"
| "index0 v = JUndefined"

definition opt_index0 :: "jsv \<Rightarrow> jsv" where
  "opt_index0 v = (if nullish v then JUndefined else index0 v)"

definition or_js :: "jsv \<Rightarrow> jsv \<Rightarrow> jsv" where
  "or_js a b = (if truthy a then a else b)"

definition default_to :: "jsv \<Rightarrow> jsv \<Rightarrow> jsv" where
  "default_to d v = (if v = JUndefined then d else v)"

definition destructure :: "jsv \<Rightarrow> exn + unit" where
  "destructure v =
     (if nullish v then Inl (JsTypeError ''Cannot destructure a value that is null or undefined'')
      else Inr ())"

section \<open>The platform: conversions, environment, network, console\<close>

text \<open>
  What the handlers take from the runtime is a parameter of the model: \<^verbatim>\<open>JSON.parse\<close>
  (an exception or a value), the conversions of the language that depend on number
  syntax (\<^verbatim>\<open>Number::toString\<close>, \<^verbatim>\<open>ToString\<close> of an array or object,
  \<^verbatim>\<open>StringToNumber\<close> with \<open>None\<close> for \<^verbatim>\<open>NaN\<close>), \<^verbatim>\<open>Deno.env.get\<close>, and the
  network: what the \<open>n\<close>-th \<^verbatim>\<open>fetch\<close> of an invocation is answered with.

  An outbound request records its URL, the credential it carries and the values of the
  incoming request that it forwards (before they are serialised); the fixed prompt and
  e-mail texts of the request bodies are not modelled.
\<close>

record outreq =
  out_url :: string
  out_auth :: "string option"
  out_args :: "(string \<times> jsv) list"

record upstream =
  up_status :: nat
  up_text :: string

datatype fetch_outcome = Rejected exn | Responded upstream

record platform =
  json_parse :: "string \<Rightarrow> exn + jsv"
  number_to_string :: "rat \<Rightarrow> string"
  object_to_string :: "jsv \<Rightarrow> exn + string"
  string_to_number :: "string \<Rightarrow> rat option"
  env_get :: "string \<Rightarrow> string option"
  network :: "nat \<Rightarrow> outreq \<Rightarrow> fetch_outcome"

definition to_str :: "platform \<Rightarrow> jsv \<Rightarrow> exn + string" where
  \<comment> \<open>\<^verbatim>\<open>ToString\<close>, as a template literal applies it\<close>
  "to_str p v =
     (case v of
        JUndefined \<Rightarrow> Inr ''undefined''
      | JNull \<Rightarrow> Inr ''null''
      | JBool b \<Rightarrow> Inr (if b then ''true'' else ''false'')
      | JNum n \<Rightarrow> Inr (number_to_string p n)
      | JStr s \<Rightarrow> Inr s
      | JArr xs \<Rightarrow> object_to_string p v
      | JObj fs \<Rightarrow> object_to_string p v)"

definition to_num :: "platform \<Rightarrow> jsv \<Rightarrow> exn + rat option" where
  \<comment> \<open>\<^verbatim>\<open>ToNumber\<close>; \<open>None\<close> is \<^verbatim>\<open>NaN\<close>\<close>
  "to_num p v =
     (case v of
        JUndefined \<Rightarrow> Inr None
      | JNull \<Rightarrow> Inr (Some 0)
      | JBool b \<Rightarrow> Inr (Some (if b then 1 else 0))
      | JNum n \<Rightarrow> Inr (Some n)
      | JStr s \<Rightarrow> Inr (string_to_number p s)
      | JArr xs \<Rightarrow>
          (case object_to_string p v of Inl e \<Rightarrow> Inl e | Inr s \<Rightarrow> Inr (string_to_number p s))
      | JObj fs \<Rightarrow>
          (case object_to_string p v of Inl e \<Rightarrow> Inl e | Inr s \<Rightarrow> Inr (string_to_number p s)))"

definition gt_zero :: "platform \<Rightarrow> jsv \<Rightarrow> exn + bool" where
  \<comment> \<open>the comparison \<^verbatim>\<open>v > 0\<close>\<close>
  "gt_zero p v =
     (case to_num p v of
        Inl e \<Rightarrow> Inl e
      | Inr None \<Rightarrow> Inr False
      | Inr (Some n) \<Rightarrow> Inr (0 < n))"

definition is_set :: "string option \<Rightarrow> bool" where
  \<comment> \<open>an environment variable that is truthy: defined and not the empty string\<close>
  "is_set k = (case k of None \<Rightarrow> False | Some s \<Rightarrow> s \<noteq> [])"

definition ok :: "upstream \<Rightarrow> bool" where
  \<comment> \<open>\<^verbatim>\<open>Response.ok\<close>\<close>
  "ok u = (200 \<le> up_status u \<and> up_status u \<le> 299)"

subsection \<open>Requests and responses\<close>

record js_file =
  file_type :: string
  file_bytes :: "8 word list"

datatype form_entry = FormText string | FormFile js_file

text \<open>
  A request carries its body as text, read by \<^verbatim>\<open>req.json()\<close>, and as the result of
  \<^verbatim>\<open>req.formData()\<close>: the entries, or the exception it rejects with. Header names are
  in lower case, as \<^verbatim>\<open>Headers.get\<close> compares them.
\<close>

record request =
  req_method :: string
  req_headers :: "(string \<times> string) list"
  req_text :: string
  req_form :: "exn + (string \<times> form_entry) list"

text \<open>
  The body of a response is the value handed to \<^verbatim>\<open>JSON.stringify\<close>, or \<open>None\<close> for
  the \<^verbatim>\<open>null\<close> body of a preflight response.
\<close>

record response =
  resp_status :: nat
  resp_headers :: "(string \<times> string) list"
  resp_body :: "jsv option"

definition spread :: "('k \<times> 'v) list \<Rightarrow> ('k \<times> 'v) list \<Rightarrow> ('k \<times> 'v) list" where
  \<comment> \<open>the object literal \<^verbatim>\<open>{ ...a, ...b }\<close>: a later key overwrites an earlier one\<close>
  "spread a b = fold (\<lambda>(k, v) acc. AList.update k v acc) b a"

definition content_type_json :: "(string \<times> string) list" where
  "content_type_json = [(''Content-Type'', ''application/json'')]"

definition json_response :: "nat \<Rightarrow> (string \<times> string) list \<Rightarrow> jsv \<Rightarrow> response" where
  "json_response st hs v = \<lparr>resp_status = st, resp_headers = hs, resp_body = Some v\<rparr>"

definition preflight_response :: "(string \<times> string) list \<Rightarrow> response" where
  \<comment> \<open>\<^verbatim>\<open>new Response(null, { headers })\<close>: the status defaults to 200\<close>
  "preflight_response hs = \<lparr>resp_status = 200, resp_headers = hs, resp_body = None\<rparr>"

definition error_body :: "string \<Rightarrow> jsv" where
  "error_body m = JObj [(''error'', JStr m)]"

subsection \<open>Effects\<close>

datatype log_line = LogLine string | ErrorLine string | ErrorExn string exn

record world =
  console :: "log_line list"
  requests :: "outreq list"

definition world0 :: world where
  "world0 = \<lparr>console = [], requests = []\<rparr>"

text \<open>
  A computation takes the world and returns an exception (\<open>Inl\<close>) or a value, with the
  world it leaves. An early \<^verbatim>\<open>return\<close> of the source is the \<open>then\<close> branch of an
  \<open>if\<close> whose \<open>else\<close> branch is the rest of the block.
\<close>

type_synonym 'a io = "world \<Rightarrow> (exn + 'a) \<times> world"

definition ret :: "'a \<Rightarrow> 'a io" where
  "ret x w = (Inr x, w)"

definition throw :: "exn \<Rightarrow> 'a io" where
  "throw e w = (Inl e, w)"

definition lift :: "exn + 'a \<Rightarrow> 'a io" where
  "lift r w = (r, w)"

definition seq :: "'a io \<Rightarrow> ('a \<Rightarrow> 'b io) \<Rightarrow> 'b io" where
  "seq m f w = (case m w of (Inl e, w') \<Rightarrow> (Inl e, w') | (Inr x, w') \<Rightarrow> f x w')"

definition try_catch :: "'a io \<Rightarrow> (exn \<Rightarrow> 'a io) \<Rightarrow> 'a io" where
  "try_catch m h w = (case m w of (Inl e, w') \<Rightarrow> h e w' | (Inr x, w') \<Rightarrow> (Inr x, w'))"

definition console_log :: "string \<Rightarrow> unit io" where
  "console_log s w = (Inr (), w\<lparr>console := console w @ [LogLine s]\<rparr>)"

definition console_error :: "string \<Rightarrow> unit io" where
  "console_error s w = (Inr (), w\<lparr>console := console w @ [ErrorLine s]\<rparr>)"

definition console_error_exn :: "string \<Rightarrow> exn \<Rightarrow> unit io" where
  "console_error_exn s e w = (Inr (), w\<lparr>console := console w @ [ErrorExn s e]\<rparr>)"

definition fetch :: "platform \<Rightarrow> outreq \<Rightarrow> upstream io" where
  "fetch p r w =
     (let w' = w\<lparr>requests := requests w @ [r]\<rparr> in
      case network p (length (requests w)) r of
        Rejected e \<Rightarrow> (Inl e, w')
      | Responded u \<Rightarrow> (Inr u, w'))"

definition req_json :: "platform \<Rightarrow> request \<Rightarrow> jsv io" where
  \<comment> \<open>\<^verbatim>\<open>await req.json()\<close>\<close>
  "req_json p req = lift (json_parse p (req_text req))"

definition up_json :: "platform \<Rightarrow> upstream \<Rightarrow> jsv io" where
  \<comment> \<open>\<^verbatim>\<open>await response.json()\<close>\<close>
  "up_json p u = lift (json_parse p (up_text u))"

definition run :: "response io \<Rightarrow> (exn + response) \<times> world" where
  \<comment> \<open>one invocation: each starts with an empty console and no request sent\<close>
  "run h = h world0"

section \<open>Base64\<close>

text \<open>
  \<^verbatim>\<open>btoa\<close> belongs to the platform: it is modelled after the base64 encoding of
  RFC 4648 (alphabet \<open>A-Z a-z 0-9 + /\<close>, padding \<open>=\<close>), on strings whose characters
  are bytes, and \<open>atob\<close> is the strict decoder of the same encoding. The function of
  skin-analyze is
  \<^verbatim>\<open>
  function arrayBufferToBase64(buffer: ArrayBuffer) {
    const bytes = new Uint8Array(buffer);
    let binary = "";
    for (let i = 0; i < bytes.length; i++) binary += String.fromCharCode(bytes[i]);
    return btoa(binary);
  }
  \<close>
\<close>

definition b64_alphabet :: string where
  "b64_alphabet = ''ABCDEFGHIJKLMNOPQRSTUVWXYZabcdefghijklmnopqrstuvwxyz0123456789+/''"

definition b64_char :: "nat \<Rightarrow> char" where
  "b64_char n = b64_alphabet ! n"



fun btoa :: "string \<Rightarrow> string" where
  "btoa (x # y # z # rest) =
     (let a = of_char x :: nat; b = of_char y :: nat; c = of_char z :: nat in
      [b64_char (a div 4), b64_char ((a mod 4) * 16 + b div 16),
       b64_char ((b mod 16) * 4 + c div 64), b64_char (c mod 64)] @ btoa rest)"
| "btoa [x, y] =
     (let a = of_char x :: nat; b = of_char y :: nat in
      [b64_char (a div 4), b64_char ((a mod 4) * 16 + b div 16),
       b64_char ((b mod 16) * 4), CHR ''=''])"
| "btoa [x] =
     (let a = of_char x :: nat in
      [b64_char (a div 4), b64_char ((a mod 4) * 16), CHR ''='', CHR ''=''])"
| "btoa [] = []"


definition fromCharCode :: "8 word \<Rightarrow> char" where
  "fromCharCode b = char_of (unat b)"

definition arrayBufferToBase64 :: "8 word list \<Rightarrow> string" where
  "arrayBufferToBase64 buffer = btoa (fold (\<lambda>b binary. binary @ [fromCharCode b]) buffer [])"


section \<open>The request handlers\<close>

text \<open>
  Eight handlers, each the function given to \<^verbatim>\<open>serve\<close>: skin-analyze
  (\<^verbatim>\<open>supabase/functions/skin-analyze/index.ts\<close>), scan-medicine, explain-diagnosis and
  find-doctors over the NPI registry (\<^verbatim>\<open>supabase/functions/scan-medicine/index.ts\<close>),
  two versions of find-doctors over the places scraper, and two versions of
  send-customer-email (\<^verbatim>\<open>supabase/functions/send-customer-email/index.ts\<close>). Each
  definition follows the statements of its source in order; \<open>h_try\<close> is the block of
  the \<^verbatim>\<open>try\<close> statement of handler \<open>h\<close>, and \<open>h\<close> adds the checks made before it and
  the catch block.
\<close>

definition and_then :: "exn + 'a \<Rightarrow> ('a \<Rightarrow> exn + 'b) \<Rightarrow> exn + 'b" where
  \<comment> \<open>evaluation order in code without effects: the first exception ends it\<close>
  "and_then r f = (case r of Inl e \<Rightarrow> Inl e | Inr x \<Rightarrow> f x)"

fun map_exn :: "('a \<Rightarrow> exn + 'b) \<Rightarrow> 'a list \<Rightarrow> exn + 'b list" where
  \<comment> \<open>a \<^verbatim>\<open>for ... of\<close> loop that pushes one record per element\<close>
  "map_exn f [] = Inr []"
| "map_exn f (x # xs) =
     (case f x of
        Inl e \<Rightarrow> Inl e
      | Inr y \<Rightarrow> (case map_exn f xs of Inl e \<Rightarrow> Inl e | Inr ys \<Rightarrow> Inr (y # ys)))"

definition nonempty_string :: "jsv \<Rightarrow> string option" where
  \<comment> \<open>the string that passes \<^verbatim>\<open>!content || typeof content !== "string"\<close>\<close>
  "nonempty_string v = (case v of JStr s \<Rightarrow> if s = [] then None else Some s | _ \<Rightarrow> None)"

definition message_content :: "jsv \<Rightarrow> jsv" where
  \<comment> \<open>\<^verbatim>\<open>payload?.choices?.[0]?.message?.content\<close>\<close>
  "message_content payload =
     opt_get (opt_get (opt_index0 (opt_get payload ''choices'')) ''message'') ''content''"

definition ai_gateway :: string where
  "ai_gateway = ''https://ai.gateway.lovable.dev/v1/chat/completions''"

definition acao :: string where
  "acao = ''Access-Control-Allow-Origin''"

definition acah :: string where
  "acah = ''Access-Control-Allow-Headers''"

definition allowed_headers :: string where
  "allowed_headers = ''authorization, x-client-info, apikey, content-type''"

definition corsHeaders :: "(string \<times> string) list" where
  \<comment> \<open>scan-medicine, find-doctors (both providers), send-customer-email\<close>
  "corsHeaders =
     [(''Access-Control-Allow-Origin'', ''*''),
      (''Access-Control-Allow-Headers'', ''authorization, x-client-info, apikey, content-type'')]"

definition baseCorsHeaders :: "(string \<times> string) list" where
  \<comment> \<open>skin-analyze; explain-diagnosis declares the same three as its \<^verbatim>\<open>corsHeaders\<close>\<close>
  "baseCorsHeaders =
     [(''Access-Control-Allow-Origin'', ''*''),
      (''Access-Control-Allow-Headers'', ''authorization, x-client-info, apikey, content-type''),
      (''Access-Control-Allow-Methods'', ''POST, OPTIONS'')]"

subsection \<open>skin-analyze\<close>

text \<open>
  The key is checked first, then the form is read; the file and the symptoms are
  required. The image goes out as a data URL. Any status of the gateway outside 2xx is
  answered 502, and so is a content that is missing or does not parse.
\<close>

definition origin_of :: "request \<Rightarrow> string" where
  \<comment> \<open>\<^verbatim>\<open>req.headers.get("origin") ?? "*"\<close>\<close>
  "origin_of req = (case map_of (req_headers req) ''origin'' of None \<Rightarrow> ''*'' | Some v \<Rightarrow> v)"

definition withCors :: "request \<Rightarrow> (string \<times> string) list \<Rightarrow> (string \<times> string) list" where
  "withCors req extraHeaders =
     (let origin = origin_of req in
      spread (spread baseCorsHeaders [(''Access-Control-Allow-Origin'', origin)]) extraHeaders)"

definition entry_string :: "form_entry option \<Rightarrow> string \<Rightarrow> string" where
  \<comment> \<open>\<^verbatim>\<open>String(form.get(name) ?? d)\<close>\<close>
  "entry_string e d =
     (case e of None \<Rightarrow> d | Some (FormText s) \<Rightarrow> s | Some (FormFile f) \<Rightarrow> ''[object File]'')"

definition as_file :: "form_entry option \<Rightarrow> js_file option" where
  \<comment> \<open>the entry that passes \<^verbatim>\<open>!file || !(file instanceof File)\<close>\<close>
  "as_file e = (case e of Some (FormFile f) \<Rightarrow> Some f | _ \<Rightarrow> None)"

definition set_prop :: "jsv \<Rightarrow> string \<Rightarrow> jsv \<Rightarrow> jsv" where
  "set_prop v k x = (case v of JObj fs \<Rightarrow> JObj (AList.update k x fs) | _ \<Rightarrow> v)"

definition normalize_confidence :: "platform \<Rightarrow> jsv \<Rightarrow> exn + jsv" where
  \<comment> \<open>a confidence sent as a numeric string becomes a number\<close>
  "normalize_confidence p result =
     and_then (js_get result ''confidence'') (\<lambda>c.
       case c of
         JStr s \<Rightarrow>
           (case string_to_number p s of
              None \<Rightarrow> Inr result
            | Some n \<Rightarrow> Inr (set_prop result ''confidence'' (JNum n)))
       | _ \<Rightarrow> Inr result)"

definition data_url :: "js_file \<Rightarrow> string" where
  "data_url f =
     (let mime = (if file_type f = [] then ''image/jpeg'' else file_type f);
          b64 = arrayBufferToBase64 (file_bytes f)
      in ''data:'' @ mime @ '';base64,'' @ b64)"

definition skin_analyze_try :: "platform \<Rightarrow> request \<Rightarrow> response io" where
  "skin_analyze_try p req =
     (let apiKey = env_get p ''LOVABLE_API_KEY'' in
      if \<not> is_set apiKey then
        ret (json_response 500 (withCors req content_type_json) (error_body ''AI configuration error''))
      else
        seq (lift (req_form req)) (\<lambda>form.
          let file = map_of form ''file'';
              symptoms = trim (entry_string (map_of form ''symptoms'') []);
              language = toLowerCase (entry_string (map_of form ''language'') ''english'')
          in
          case as_file file of
            None \<Rightarrow>
              ret (json_response 400 (withCors req content_type_json) (error_body ''Image file is required''))
          | Some f \<Rightarrow>
              if symptoms = [] then
                ret (json_response 400 (withCors req content_type_json) (error_body ''Symptoms are required''))
              else
                seq (fetch p \<lparr>out_url = ai_gateway, out_auth = apiKey,
                              out_args = [(''language'', JStr language), (''symptoms'', JStr symptoms),
                                          (''image_url'', JStr (data_url f))]\<rparr>) (\<lambda>aiResponse.
                  if \<not> ok aiResponse then
                    seq (console_error ''AI gateway error:'') (\<lambda>_.
                      ret (json_response 502 (withCors req content_type_json) (error_body ''Analysis service error'')))
                  else
                    seq (up_json p aiResponse) (\<lambda>payload.
                      case nonempty_string (message_content payload) of
                        None \<Rightarrow>
                          seq (console_error ''Unexpected AI response:'') (\<lambda>_.
                            ret (json_response 502 (withCors req content_type_json)
                                   (error_body ''Invalid analysis response'')))
                      | Some content \<Rightarrow>
                          (case json_parse p content of
                             Inl e \<Rightarrow>
                               seq (console_error ''Failed to parse AI JSON:'') (\<lambda>_.
                                 ret (json_response 502 (withCors req content_type_json)
                                        (error_body ''Invalid analysis JSON'')))
                           | Inr result \<Rightarrow>
                               seq (lift (normalize_confidence p result)) (\<lambda>result'.
                                 ret (json_response 200 (withCors req content_type_json) result')))))))"

definition skin_analyze :: "platform \<Rightarrow> request \<Rightarrow> response io" where
  "skin_analyze p req =
     (if req_method req = ''OPTIONS'' then ret (preflight_response (withCors req []))
      else if req_method req \<noteq> ''POST'' then
        ret (json_response 405 (withCors req content_type_json) (error_body ''Method not allowed''))
      else
        try_catch (skin_analyze_try p req) (\<lambda>error.
          seq (console_error_exn ''Error in skin-analyze function:'' error) (\<lambda>_.
            ret (json_response 500 (withCors req content_type_json) (error_body ''Unknown error'')))))"

subsection \<open>scan-medicine\<close>

text \<open>
  The body is read first; the image is required; a missing key is thrown. Status 429 of
  the gateway is returned as 429; any other status outside 2xx is thrown as
  \<open>API error: <status>\<close>. The catch block answers 500 with the message of the error.
\<close>

definition scan_medicine_try :: "platform \<Rightarrow> request \<Rightarrow> response io" where
  "scan_medicine_try p req =
     seq (req_json p req) (\<lambda>body.
     seq (lift (destructure body)) (\<lambda>_.
       let image = js_prop body ''image'';
           language = default_to (JStr ''en'') (js_prop body ''language'')
       in
       if \<not> truthy image then
         ret (json_response 400 (spread corsHeaders content_type_json) (error_body ''No image provided''))
       else
         let LOVABLE_API_KEY = env_get p ''LOVABLE_API_KEY'' in
         if \<not> is_set LOVABLE_API_KEY then throw (JsError ''LOVABLE_API_KEY is not configured'')
         else
           \<comment> \<open>\<^verbatim>\<open>languageInstructions[language]\<close> converts the key to a string\<close>
           seq (lift (to_str p language)) (\<lambda>_.
           seq (console_log ''Sending request to Gemini for medicine analysis...'') (\<lambda>_.
           seq (fetch p \<lparr>out_url = ai_gateway, out_auth = LOVABLE_API_KEY,
                         out_args = [(''language'', language), (''image_url'', image)]\<rparr>) (\<lambda>response.
             if \<not> ok response then
               seq (console_error ''Gemini API error:'') (\<lambda>_.
                 if up_status response = 429 then
                   ret (json_response 429 (spread corsHeaders content_type_json)
                          (error_body ''Rate limit exceeded. Please try again later.''))
                 else
                   throw (JsError (''API error: '' @ number_to_string p (of_nat (up_status response)))))
             else
               seq (up_json p response) (\<lambda>data.
               seq (lift (js_get data ''choices'')) (\<lambda>choices.
                 let result = opt_get (opt_get (opt_index0 choices) ''message'') ''content'' in
                 seq (console_log ''Medicine analysis completed successfully'') (\<lambda>_.
                   ret (json_response 200 (spread corsHeaders content_type_json)
                          (JObj [(''result'', result)]))))))))))"

definition scan_medicine :: "platform \<Rightarrow> request \<Rightarrow> response io" where
  "scan_medicine p req =
     (if req_method req = ''OPTIONS'' then ret (preflight_response corsHeaders)
      else
        try_catch (scan_medicine_try p req) (\<lambda>error.
          seq (console_error_exn ''Error in scan-medicine function:'' error) (\<lambda>_.
            ret (json_response 500 (spread corsHeaders content_type_json)
                   (error_body (message error))))))"

subsection \<open>explain-diagnosis\<close>

text \<open>
  The key is checked before the body is read. Statuses 429 and 402 of the gateway are
  returned as they are, any other status outside 2xx as 502. With a question the content
  is the answer; without one it is parsed, and returned as the explanation when it does
  not parse.
\<close>

definition explain_prompts :: "platform \<Rightarrow> jsv \<Rightarrow> jsv \<Rightarrow> jsv \<Rightarrow> jsv \<Rightarrow> exn + unit" where
  \<comment> \<open>the conversions that the template literals of the two prompts make, in order\<close>
  "explain_prompts p disease confidence symptoms question =
     and_then (to_str p disease) (\<lambda>_.
     and_then (to_str p (or_js confidence (JStr ''unknown''))) (\<lambda>_.
     and_then (to_str p (or_js symptoms (JStr ''Not provided''))) (\<lambda>_.
       if truthy question then and_then (to_str p question) (\<lambda>_. Inr ()) else Inr ())))"

definition explanation_fallback :: "string \<Rightarrow> jsv" where
  "explanation_fallback content =
     JObj [(''explanation'', JStr content),
           (''recommendations'', JArr []),
           (''causes'', JArr []),
           (''precautions'', JArr []),
           (''severity'', JStr ''Unknown''),
           (''suggestedDoctor'', JStr ''Dermatologist'')]"

definition explain_diagnosis_try :: "platform \<Rightarrow> request \<Rightarrow> response io" where
  "explain_diagnosis_try p req =
     (let apiKey = env_get p ''LOVABLE_API_KEY'' in
      if \<not> is_set apiKey then
        seq (console_error ''LOVABLE_API_KEY not configured'') (\<lambda>_.
          ret (json_response 500 (spread baseCorsHeaders content_type_json)
                 (error_body ''AI configuration error'')))
      else
        seq (req_json p req) (\<lambda>body.
        seq (lift (destructure body)) (\<lambda>_.
          let disease = js_prop body ''disease'';
              confidence = js_prop body ''confidence'';
              symptoms = js_prop body ''symptoms'';
              question = js_prop body ''question'';
              language = default_to (JStr ''english'') (js_prop body ''language'')
          in
          if \<not> truthy disease then
            ret (json_response 400 (spread baseCorsHeaders content_type_json)
                   (error_body ''Disease name is required''))
          else
            seq (lift (explain_prompts p disease confidence symptoms question)) (\<lambda>_.
            seq (console_log ''Calling Gemini for:'') (\<lambda>_.
            seq (fetch p \<lparr>out_url = ai_gateway, out_auth = apiKey,
                          out_args = [(''language'', language), (''disease'', disease),
                                      (''confidence'', confidence), (''symptoms'', symptoms),
                                      (''question'', question)]\<rparr>) (\<lambda>aiResponse.
              if \<not> ok aiResponse then
                seq (console_error ''AI gateway error:'') (\<lambda>_.
                  if up_status aiResponse = 429 then
                    ret (json_response 429 (spread baseCorsHeaders content_type_json)
                           (error_body ''Rate limit exceeded. Please try again later.''))
                  else if up_status aiResponse = 402 then
                    ret (json_response 402 (spread baseCorsHeaders content_type_json)
                           (error_body ''AI credits exhausted. Please add credits.''))
                  else
                    ret (json_response 502 (spread baseCorsHeaders content_type_json)
                           (error_body ''AI explanation service error'')))
              else
                seq (up_json p aiResponse) (\<lambda>payload.
                  case nonempty_string (message_content payload) of
                    None \<Rightarrow>
                      seq (console_error ''Unexpected AI response:'') (\<lambda>_.
                        ret (json_response 502 (spread baseCorsHeaders content_type_json)
                               (error_body ''Invalid AI response'')))
                  | Some content \<Rightarrow>
                      if truthy question then
                        ret (json_response 200 (spread baseCorsHeaders content_type_json)
                               (JObj [(''answer'', JStr content)]))
                      else
                        (case json_parse p content of
                           Inr result \<Rightarrow>
                             ret (json_response 200 (spread baseCorsHeaders content_type_json) result)
                         | Inl e \<Rightarrow>
                             seq (console_error ''Failed to parse explanation JSON:'') (\<lambda>_.
                               ret (json_response 200 (spread baseCorsHeaders content_type_json)
                                      (explanation_fallback content)))))))))))"

definition explain_diagnosis :: "platform \<Rightarrow> request \<Rightarrow> response io" where
  "explain_diagnosis p req =
     (if req_method req = ''OPTIONS'' then ret (preflight_response baseCorsHeaders)
      else if req_method req \<noteq> ''POST'' then
        ret (json_response 405 (spread baseCorsHeaders content_type_json) (error_body ''Method not allowed''))
      else
        try_catch (explain_diagnosis_try p req) (\<lambda>error.
          seq (console_error_exn ''Error in explain-diagnosis function:'' error) (\<lambda>_.
            ret (json_response 500 (spread baseCorsHeaders content_type_json)
                   (error_body ''Unknown error occurred'')))))"

subsection \<open>find-doctors, from the NPI registry\<close>

text \<open>
  The record of a doctor is
  \<^verbatim>\<open>
  const basic = result.basic || {};
  const address = result.addresses?.find((a: any) => a.address_purpose === "LOCATION") ||
                  result.addresses?.[0] || {};
  ...
  doctors.push({
    name: `Dr. ${firstName} ${lastName}${credential ? `, ${credential}` : ""}`,
    specialty: result.taxonomies?.[0]?.desc || "Dermatology",
    address: address.address_1 || "Address not available",
    city: address.city || "",
    state: address.state || "",
    zip: address.postal_code?.substring(0, 5) || "",
    phone: address.telephone_number || "Not available",
  });
  \<close>
  and the doctor finder component maps the results of the registry with the same
  expressions.
\<close>

definition substring5 :: "jsv \<Rightarrow> exn + jsv" where
  \<comment> \<open>\<^verbatim>\<open>v.substring(0, 5)\<close> on a value that is neither null nor undefined\<close>
  "substring5 v =
     (case v of
        JStr s \<Rightarrow> Inr (JStr (take 5 s))
      | _ \<Rightarrow> Inl (JsTypeError ''substring is not a function''))"

fun find_location :: "jsv list \<Rightarrow> exn + jsv" where
  \<comment> \<open>\<^verbatim>\<open>find((a) => a.address_purpose === "LOCATION")\<close> on an array\<close>
  "find_location [] = Inr JUndefined"
| "find_location (a # as) =
     (case js_get a ''address_purpose'' of
        Inl e \<Rightarrow> Inl e
      | Inr v \<Rightarrow> if v = JStr ''LOCATION'' then Inr a else find_location as)"

definition addresses_find :: "jsv \<Rightarrow> exn + jsv" where
  \<comment> \<open>\<^verbatim>\<open>result.addresses?.find(...)\<close>\<close>
  "addresses_find v =
     (case v of
        JUndefined \<Rightarrow> Inr JUndefined
      | JNull \<Rightarrow> Inr JUndefined
      | JArr as \<Rightarrow> find_location as
      | _ \<Rightarrow> Inl (JsTypeError ''result.addresses?.find is not a function''))"

definition npi_address :: "jsv \<Rightarrow> exn + jsv" where
  "npi_address result =
     and_then (addresses_find (js_prop result ''addresses'')) (\<lambda>found.
       Inr (or_js (or_js found (opt_index0 (js_prop result ''addresses''))) (JObj [])))"

definition npi_doctor :: "platform \<Rightarrow> jsv \<Rightarrow> exn + jsv" where
  "npi_doctor p result =
     and_then (js_get result ''basic'') (\<lambda>b.
     and_then (npi_address result) (\<lambda>address.
       let basic = or_js b (JObj []);
           firstName = or_js (js_prop basic ''first_name'') (JStr []);
           lastName = or_js (js_prop basic ''last_name'') (JStr []);
           credential = or_js (js_prop basic ''credential'') (JStr [])
       in
       and_then (to_str p firstName) (\<lambda>first.
       and_then (to_str p lastName) (\<lambda>last.
       and_then (if truthy credential
                 then and_then (to_str p credential) (\<lambda>c. Inr ('', '' @ c))
                 else Inr []) (\<lambda>suffix.
       and_then (let postal_code = js_prop address ''postal_code'' in
                 if nullish postal_code then Inr JUndefined else substring5 postal_code) (\<lambda>zip5.
         Inr (JObj
           [(''name'', JStr (''Dr. '' @ first @ '' '' @ last @ suffix)),
            (''specialty'',
               or_js (opt_get (opt_index0 (js_prop result ''taxonomies'')) ''desc'') (JStr ''Dermatology'')),
            (''address'', or_js (js_prop address ''address_1'') (JStr ''Address not available'')),
            (''city'', or_js (js_prop address ''city'') (JStr [])),
            (''state'', or_js (js_prop address ''state'') (JStr [])),
            (''zip'', or_js zip5 (JStr [])),
            (''phone'', or_js (js_prop address ''telephone_number'') (JStr ''Not available''))])))))))"

definition chars_of :: "string \<Rightarrow> jsv list" where
  \<comment> \<open>what iterating a string yields\<close>
  "chars_of s = map (\<lambda>c. JStr [c]) s"

definition npi_results :: "platform \<Rightarrow> jsv \<Rightarrow> exn + jsv list" where
  \<comment> \<open>the elements that \<^verbatim>\<open>for (const result of data.results)\<close> visits, under the guard
      \<^verbatim>\<open>data.results && data.results.length > 0\<close>\<close>
  "npi_results p data =
     and_then (js_get data ''results'') (\<lambda>results.
       if \<not> truthy results then Inr []
       else
         and_then (gt_zero p (js_prop results ''length'')) (\<lambda>some.
           if \<not> some then Inr []
           else
             (case results of
                JArr xs \<Rightarrow> Inr xs
              | JStr s \<Rightarrow> Inr (chars_of s)
              | _ \<Rightarrow> Inl (JsTypeError ''data.results is not iterable''))))"

definition npi_registry :: string where
  "npi_registry = ''https://npiregistry.cms.hhs.gov/api/''"

definition npi_params :: "platform \<Rightarrow> jsv \<Rightarrow> jsv \<Rightarrow> exn + (string \<times> jsv) list" where
  \<comment> \<open>the search parameters appended for the zip code and the city\<close>
  "npi_params p zipCode city =
     and_then (if truthy zipCode
               then and_then (substring5 zipCode) (\<lambda>z. Inr [(''postal_code'', z)])
               else Inr []) (\<lambda>zs.
     and_then (if truthy city
               then and_then (to_str p city) (\<lambda>c. Inr [(''city'', JStr c)])
               else Inr []) (\<lambda>cs.
       Inr (zs @ cs)))"

definition find_doctors_npi_try :: "platform \<Rightarrow> request \<Rightarrow> response io" where
  "find_doctors_npi_try p req =
     seq (req_json p req) (\<lambda>body.
     seq (lift (destructure body)) (\<lambda>_.
       let zipCode = js_prop body ''zipCode'';
           city = js_prop body ''city''
       in
       if \<not> truthy zipCode \<and> \<not> truthy city then
         ret (json_response 400 (spread corsHeaders content_type_json)
                (error_body ''Please provide a zip code or city''))
       else
         seq (lift (npi_params p zipCode city)) (\<lambda>params.
         seq (console_log ''Searching NPI Registry:'') (\<lambda>_.
         seq (fetch p \<lparr>out_url = npi_registry, out_auth = None, out_args = params\<rparr>) (\<lambda>response.
           if \<not> ok response then
             seq (console_error ''NPI API error:'') (\<lambda>_.
               throw (JsError ''Failed to fetch from NPI Registry''))
           else
             seq (up_json p response) (\<lambda>data.
             seq (lift (npi_results p data)) (\<lambda>results.
             seq (lift (map_exn (npi_doctor p) results)) (\<lambda>doctors.
             seq (console_log ''Found doctors'') (\<lambda>_.
               ret (json_response 200 (spread corsHeaders content_type_json)
                      (JObj [(''doctors'', JArr doctors)])))))))))))"

definition find_doctors_catch :: "exn \<Rightarrow> response io" where
  \<comment> \<open>the catch block that the three find-doctors handlers share\<close>
  "find_doctors_catch error =
     seq (console_error_exn ''Error in find-doctors function:'' error) (\<lambda>_.
       ret (json_response 500 (spread corsHeaders content_type_json) (error_body (message error))))"

definition find_doctors_npi :: "platform \<Rightarrow> request \<Rightarrow> response io" where
  "find_doctors_npi p req =
     (if req_method req = ''OPTIONS'' then ret (preflight_response corsHeaders)
      else try_catch (find_doctors_npi_try p req) find_doctors_catch)"

subsection \<open>find-doctors, from the places scraper (two versions)\<close>

text \<open>
  Both versions require a pin code or a city, check the key, run the scraper once and
  keep at most five places. The first version builds the map link from the place id or
  the coordinates and reads more alternative fields; a missing name becomes
  \<open>Unknown\<close>, a missing address \<open>Address not available\<close>, the other missing fields
  \<^verbatim>\<open>null\<close>.
\<close>

definition googleMapsLink :: "platform \<Rightarrow> jsv \<Rightarrow> exn + jsv" where
  \<comment> \<open>first version: the link is built from the place id or the coordinates when the
      place has no url\<close>
  "googleMapsLink p place =
     and_then (js_get place ''url'') (\<lambda>url.
     and_then (if truthy url then gt_zero p (js_prop url ''length'') else Inr False) (\<lambda>has_url.
       if has_url then Inr url
       else
         let placeId = js_prop place ''placeId'';
             location = js_prop place ''location''
         in
         if truthy placeId then
           and_then (to_str p placeId) (\<lambda>s.
             Inr (JStr (''https://www.google.com/maps/place/?q=place_id:'' @ s)))
         else if truthy (opt_get location ''lat'') \<and> truthy (opt_get location ''lng'') then
           and_then (to_str p (js_prop location ''lat'')) (\<lambda>lat.
           and_then (to_str p (js_prop location ''lng'')) (\<lambda>lng.
             Inr (JStr (''https://www.google.com/maps?q='' @ lat @ '','' @ lng))))
         else Inr JNull))"

definition apify_doctor :: "platform \<Rightarrow> jsv \<Rightarrow> jsv \<Rightarrow> exn + jsv" where
  "apify_doctor p city place =
     and_then (googleMapsLink p place) (\<lambda>link.
       let location = js_prop place ''location'' in
       Inr (JObj
         [(''name'', or_js (or_js (js_prop place ''title'') (js_prop place ''name'')) (JStr ''Unknown'')),
          (''specialty'', JStr ''Dermatologist''),
          (''address'',
             or_js (or_js (or_js (js_prop place ''address'') (js_prop place ''street''))
                          (opt_get location ''address''))
                   (JStr ''Address not available'')),
          (''city'',
             or_js (or_js (or_js (js_prop place ''city'') (opt_get location ''city'')) city) (JStr [])),
          (''phone'',
             or_js (or_js (or_js (js_prop place ''phone'') (js_prop place ''phoneUnformatted''))
                          (js_prop place ''telephone''))
                   JNull),
          (''googleMapsLink'', link),
          (''rating'',
             or_js (or_js (or_js (js_prop place ''totalScore'') (js_prop place ''rating''))
                          (js_prop place ''stars''))
                   JNull),
          (''reviewCount'',
             or_js (or_js (or_js (js_prop place ''reviewsCount'') (js_prop place ''reviews''))
                          (js_prop place ''userRatingsTotal''))
                   JNull),
          (''workingHours'',
             or_js (or_js (or_js (js_prop place ''openingHours'') (js_prop place ''workHours''))
                          (js_prop place ''hours''))
                   JNull)]))"

definition apify_doctor2 :: "jsv \<Rightarrow> jsv \<Rightarrow> exn + jsv" where
  \<comment> \<open>second version\<close>
  "apify_doctor2 city place =
     and_then (js_get place ''title'') (\<lambda>title.
       Inr (JObj
         [(''name'', or_js (or_js title (js_prop place ''name'')) (JStr ''Unknown'')),
          (''specialty'', JStr ''Dermatologist''),
          (''address'',
             or_js (or_js (js_prop place ''address'') (js_prop place ''street''))
                   (JStr ''Address not available'')),
          (''city'', or_js (or_js (js_prop place ''city'') city) (JStr [])),
          (''phone'', or_js (or_js (js_prop place ''phone'') (js_prop place ''phoneUnformatted'')) JNull),
          (''googleMapsLink'', or_js (or_js (js_prop place ''url'') (js_prop place ''googleMapsUri'')) JNull),
          (''rating'', or_js (or_js (js_prop place ''totalScore'') (js_prop place ''rating'')) JNull),
          (''reviewCount'', or_js (or_js (js_prop place ''reviewsCount'') (js_prop place ''reviews'')) JNull),
          (''workingHours'', or_js (or_js (js_prop place ''openingHours'') (js_prop place ''workHours'')) JNull)]))"

definition has_results :: "platform \<Rightarrow> jsv \<Rightarrow> exn + bool" where
  \<comment> \<open>\<^verbatim>\<open>results && results.length > 0\<close>\<close>
  "has_results p results =
     (if \<not> truthy results then Inr False else gt_zero p (js_prop results ''length''))"

definition slice5 :: "jsv \<Rightarrow> exn + jsv list" where
  \<comment> \<open>the elements that \<^verbatim>\<open>for (const place of results.slice(0, 5))\<close> visits\<close>
  "slice5 results =
     (case results of
        JArr xs \<Rightarrow> Inr (take 5 xs)
      | JStr s \<Rightarrow> Inr (chars_of (take 5 s))
      | _ \<Rightarrow> Inl (JsTypeError ''results.slice is not a function''))"

definition apify_actor :: string where
  "apify_actor =
     ''https://api.apify.com/v2/acts/compass~crawler-google-places/run-sync-get-dataset-items''"

definition searchQuery :: "platform \<Rightarrow> jsv \<Rightarrow> jsv \<Rightarrow> exn + string" where
  "searchQuery p pinCode city =
     (if truthy city then
        and_then (to_str p city) (\<lambda>c. Inr (''dermatologist'' @ '' in '' @ c @ '', India''))
      else if truthy pinCode then
        and_then (to_str p pinCode) (\<lambda>c. Inr (''dermatologist'' @ '' in '' @ c @ '', India''))
      else Inr ''dermatologist'')"

definition apify_search :: "platform \<Rightarrow> request \<Rightarrow> (jsv \<Rightarrow> jsv \<Rightarrow> response io) \<Rightarrow> response io" where
  \<comment> \<open>what the try blocks of the two versions share: everything up to the parsed results;
      the continuation takes the city of the request and the results\<close>
  "apify_search p req continue =
     seq (req_json p req) (\<lambda>body.
     seq (lift (destructure body)) (\<lambda>_.
       let pinCode = js_prop body ''pinCode'';
           city = js_prop body ''city''
       in
       if \<not> truthy pinCode \<and> \<not> truthy city then
         ret (json_response 400 (spread corsHeaders content_type_json)
                (error_body ''Please provide a pin code or city''))
       else
         let APIFY_API_KEY = env_get p ''APIFY_API_KEY'' in
         if \<not> is_set APIFY_API_KEY then
           seq (console_error ''APIFY_API_KEY not configured'') (\<lambda>_.
             ret (json_response 500 (spread corsHeaders content_type_json)
                    (error_body ''API configuration error'')))
         else
           seq (lift (searchQuery p pinCode city)) (\<lambda>query.
           seq (console_log ''Searching Apify Google Maps:'') (\<lambda>_.
           seq (fetch p \<lparr>out_url = apify_actor, out_auth = APIFY_API_KEY,
                         out_args = [(''searchStringsArray'', JArr [JStr query])]\<rparr>) (\<lambda>actorRunResponse.
             if \<not> ok actorRunResponse then
               seq (console_error ''Apify API error:'') (\<lambda>_.
                 throw (JsError ''Failed to fetch from Apify''))
             else
               seq (up_json p actorRunResponse) (\<lambda>results.
               seq (console_log ''Apify results count:'') (\<lambda>_.
                 continue city results)))))))"

definition find_doctors_apify_try :: "platform \<Rightarrow> request \<Rightarrow> response io" where
  "find_doctors_apify_try p req =
     apify_search p req (\<lambda>city results.
       seq (lift (has_results p results)) (\<lambda>some.
       \<comment> \<open>the debugging line: \<^verbatim>\<open>Object.keys(results[0])\<close> throws on null and undefined\<close>
       seq (if some then
              (if nullish (index0 results)
               then throw (JsTypeError ''Cannot convert undefined or null to object'')
               else console_log ''Sample result fields:'')
            else ret ()) (\<lambda>_.
       seq (lift (if some then slice5 results else Inr [])) (\<lambda>places.
       seq (lift (map_exn (apify_doctor p city) places)) (\<lambda>doctors.
       seq (console_log ''Found dermatologists'') (\<lambda>_.
         ret (json_response 200 (spread corsHeaders content_type_json)
                (JObj [(''doctors'', JArr doctors)]))))))))"

definition find_doctors_apify :: "platform \<Rightarrow> request \<Rightarrow> response io" where
  "find_doctors_apify p req =
     (if req_method req = ''OPTIONS'' then ret (preflight_response corsHeaders)
      else try_catch (find_doctors_apify_try p req) find_doctors_catch)"

definition find_doctors_apify2_try :: "platform \<Rightarrow> request \<Rightarrow> response io" where
  "find_doctors_apify2_try p req =
     apify_search p req (\<lambda>city results.
       seq (lift (has_results p results)) (\<lambda>some.
       seq (lift (if some then slice5 results else Inr [])) (\<lambda>places.
       seq (lift (map_exn (apify_doctor2 city) places)) (\<lambda>doctors.
       seq (console_log ''Found dermatologists'') (\<lambda>_.
         ret (json_response 200 (spread corsHeaders content_type_json)
                (JObj [(''doctors'', JArr doctors)])))))))"

definition find_doctors_apify2 :: "platform \<Rightarrow> request \<Rightarrow> response io" where
  "find_doctors_apify2 p req =
     (if req_method req = ''OPTIONS'' then ret (preflight_response corsHeaders)
      else try_catch (find_doctors_apify2_try p req) find_doctors_catch)"

subsection \<open>send-customer-email (two versions)\<close>

text \<open>
  No input is required. A missing key is thrown; the answer of the mail API is parsed
  before its status is looked at, and a status outside 2xx is thrown with the message
  of the answer.
\<close>

definition resend_api :: string where
  "resend_api = ''https://api.resend.com/emails''"

definition send_failure :: "platform \<Rightarrow> jsv \<Rightarrow> exn + string" where
  \<comment> \<open>the message of \<^verbatim>\<open>new Error(data.message || "Failed to send email")\<close>\<close>
  "send_failure p data =
     and_then (js_get data ''message'') (\<lambda>m. to_str p (or_js m (JStr ''Failed to send email'')))"

definition send_customer_email_try :: "bool \<Rightarrow> platform \<Rightarrow> request \<Rightarrow> response io" where
  \<comment> \<open>the two versions differ in the recipient: the owner's address in the first, the
      customer's (\<open>to_customer\<close>) in the second\<close>
  "send_customer_email_try to_customer p req =
     seq (req_json p req) (\<lambda>body.
     seq (lift (destructure body)) (\<lambda>_.
       let email = js_prop body ''email'';
           issue = js_prop body ''issue'';
           resendApiKey = env_get p ''RESEND_API_KEY''
       in
       if \<not> is_set resendApiKey then throw (JsError ''RESEND_API_KEY not configured'')
       else
         seq (lift (to_str p email)) (\<lambda>email_text.
         seq (console_log ''Issue reported by:'') (\<lambda>_.
         seq (lift (to_str p issue)) (\<lambda>issue_text.
         seq (console_log ''Issue:'') (\<lambda>_.
         seq (fetch p \<lparr>out_url = resend_api, out_auth = resendApiKey,
                       out_args = [(''to'', if to_customer then JArr [email]
                                            else JArr [JStr ''mr.unknown2174@gmail.com'']),
                                   (''email'', JStr email_text), (''issue'', JStr issue_text)]\<rparr>)
           (\<lambda>emailResponse.
         seq (up_json p emailResponse) (\<lambda>data.
           if \<not> ok emailResponse then
             seq (console_error ''Resend API error:'') (\<lambda>_.
             seq (lift (send_failure p data)) (\<lambda>m. throw (JsError m)))
           else
             seq (console_log ''Email sent successfully:'') (\<lambda>_.
               ret (json_response 200 (spread content_type_json corsHeaders)
                      (JObj [(''success'', JBool True), (''data'', data)])))))))))))"

definition send_customer_email :: "bool \<Rightarrow> platform \<Rightarrow> request \<Rightarrow> response io" where
  "send_customer_email to_customer p req =
     (if req_method req = ''OPTIONS'' then ret (preflight_response corsHeaders)
      else
        try_catch (send_customer_email_try to_customer p req) (\<lambda>error.
          seq (console_error_exn ''Error in send-customer-email function:'' error) (\<lambda>_.
            ret (json_response 500 (spread content_type_json corsHeaders)
                   (error_body (message error))))))"

subsection \<open>All handlers\<close>

datatype handler =
    SkinAnalyze
  | ScanMedicine
  | ExplainDiagnosis
  | FindDoctorsNpi
  | FindDoctorsApify
  | FindDoctorsApify2
  | SendCustomerEmail
  | SendCustomerEmail2

fun handle :: "handler \<Rightarrow> platform \<Rightarrow> request \<Rightarrow> response io" where
  "handle SkinAnalyze = skin_analyze"
| "handle ScanMedicine = scan_medicine"
| "handle ExplainDiagnosis = explain_diagnosis"
| "handle FindDoctorsNpi = find_doctors_npi"
| "handle FindDoctorsApify = find_doctors_apify"
| "handle FindDoctorsApify2 = find_doctors_apify2"
| "handle SendCustomerEmail = send_customer_email False"
| "handle SendCustomerEmail2 = send_customer_email True"

section \<open>Concrete platforms and requests\<close>

text \<open>
  For evaluation on concrete inputs: a parser given by its table on the texts used, a
  platform built from an environment and a network, and requests with a JSON or a form
  body.
\<close>

definition empty_object_text :: string where
  "empty_object_text = ''{}''"

definition image_text :: string where
  \<open>image_text = ''{"image":"data:image/png;base64,AAAA"}''\<close>

definition disease_text :: string where
  \<open>disease_text = ''{"disease":"Eczema"}''\<close>

definition city_text :: string where
  \<open>city_text = ''{"city":"Pune"}''\<close>

definition report_text :: string where
  \<open>report_text = ''{"email":"a@b.c","issue":"crash"}''\<close>

definition refusal_text :: string where
  \<open>refusal_text = ''{"message":"Too many requests"}''\<close>

definition empty_content_text :: string where
  \<open>empty_content_text = ''{"choices":[{"message":{"content":""}}]}''\<close>

definition prose_content_text :: string where
  \<open>prose_content_text = ''{"choices":[{"message":{"content":"It is a rash."}}]}''\<close>

definition demo_texts :: "(string \<times> jsv) list" where
  "demo_texts =
     [(empty_object_text, JObj []),
      (image_text, JObj [(''image'', JStr ''data:image/png;base64,AAAA'')]),
      (disease_text, JObj [(''disease'', JStr ''Eczema'')]),
      (city_text, JObj [(''city'', JStr ''Pune'')]),
      (report_text, JObj [(''email'', JStr ''a@b.c''), (''issue'', JStr ''crash'')]),
      (refusal_text, JObj [(''message'', JStr ''Too many requests'')]),
      (empty_content_text,
         JObj [(''choices'', JArr [JObj [(''message'', JObj [(''content'', JStr [])])]])]),
      (prose_content_text,
         JObj [(''choices'', JArr [JObj [(''message'', JObj [(''content'', JStr ''It is a rash.'')])]])])]"

definition demo_parse :: "string \<Rightarrow> exn + jsv" where
  "demo_parse s =
     (case map_of demo_texts s of
        None \<Rightarrow> Inl (JsSyntaxError ''Unexpected token'')
      | Some v \<Rightarrow> Inr v)"

definition demo_platform :: "(string \<times> string) list \<Rightarrow> (nat \<Rightarrow> outreq \<Rightarrow> fetch_outcome) \<Rightarrow> platform" where
  "demo_platform env nw =
     \<lparr>json_parse = demo_parse,
      number_to_string = (\<lambda>n. ''0''),
      object_to_string = (\<lambda>v. Inr ''[object Object]''),
      string_to_number = (\<lambda>s. None),
      env_get = map_of env,
      network = nw\<rparr>"

definition answers :: "nat \<Rightarrow> string \<Rightarrow> nat \<Rightarrow> outreq \<Rightarrow> fetch_outcome" where
  \<comment> \<open>a network that answers every request with the given status and body\<close>
  "answers st body n r = Responded \<lparr>up_status = st, up_text = body\<rparr>"

definition all_keys :: "(string \<times> string) list" where
  "all_keys = [(''LOVABLE_API_KEY'', ''k1''), (''APIFY_API_KEY'', ''k2''), (''RESEND_API_KEY'', ''k3'')]"

definition post_json :: "string \<Rightarrow> request" where
  "post_json body =
     \<lparr>req_method = ''POST'', req_headers = [(''content-type'', ''application/json'')],
      req_text = body, req_form = Inl (JsTypeError ''Body can not be decoded as form data'')\<rparr>"

definition post_form :: "(string \<times> form_entry) list \<Rightarrow> request" where
  "post_form entries =
     \<lparr>req_method = ''POST'', req_headers = [(''content-type'', ''multipart/form-data'')],
      req_text = ''--form--'', req_form = Inr entries\<rparr>"

lemmas demo_defs = demo_platform_def demo_parse_def demo_texts_def empty_object_text_def
  image_text_def disease_text_def city_text_def report_text_def refusal_text_def
  empty_content_text_def prose_content_text_def answers_def all_keys_def post_json_def
  post_form_def

definition preflight_from :: "string \<Rightarrow> request" where
  "preflight_from origin =
     \<lparr>req_method = ''OPTIONS'', req_headers = [(''origin'', origin)], req_text = [],
      req_form = Inl (JsTypeError ''Body can not be decoded as form data'')\<rparr>"

definition photo :: js_file where
  \<comment> \<open>a File whose \<^verbatim>\<open>type\<close> is the empty string\<close>
  "photo = \<lparr>file_type = [], file_bytes = [255, 216, 255]\<rparr>"


section \<open>The customer-care chat widget\<close>

text \<open>
  The component keeps its state in React state variables; \<^verbatim>\<open>setTimeout\<close> callbacks are
  queued (every delay is 500 ms, so they run in the order they were set), and
  \<^verbatim>\<open>handleEmailSubmit\<close> is split at its \<^verbatim>\<open>await\<close>. The texts of the bot's messages are
  named, not spelled out; toasts are not modelled.
\<close>

datatype bot_text =
    Welcome
  | AskDescription
  | FeatureInfo string
  | Help
  | AskEmail
  | ThankYou string
  | SendFailed

datatype chat_message = UserSays string | BotSays bot_text

datatype callback = AskForDescription | Reply bot_text | Thank string

record chat =
  messages :: "chat_message list"
  input :: string
  isReportingIssue :: bool
  reportedIssue :: string
  email :: string
  isSending :: bool
  timers :: "callback list"
  invocations :: "(string \<times> string) list"
  awaiting :: "string option"

definition initial_chat :: chat where
  "initial_chat =
     \<lparr>messages = [BotSays Welcome], input = [], isReportingIssue = False, reportedIssue = [],
      email = [], isSending = False, timers = [], invocations = [], awaiting = None\<rparr>"

definition addMessage :: "chat_message \<Rightarrow> chat \<Rightarrow> chat" where
  "addMessage m s = s\<lparr>messages := messages s @ [m]\<rparr>"

definition setTimeout :: "callback \<Rightarrow> chat \<Rightarrow> chat" where
  "setTimeout c s = s\<lparr>timers := timers s @ [c]\<rparr>"

definition featureInfo_keys :: "string list" where
  "featureInfo_keys =
     [''skin analysis'', ''doctor finder'', ''how to use'', ''features'', ''accuracy'', ''privacy'']"

definition handleFeatureQuery :: "string \<Rightarrow> string option" where
  \<comment> \<open>the key of the \<^verbatim>\<open>featureInfo\<close> entry that answers the query\<close>
  "handleFeatureQuery query =
     (let lowerQuery = toLowerCase query in
      case find (str_includes lowerQuery) featureInfo_keys of
        Some k \<Rightarrow> Some k
      | None \<Rightarrow>
          if str_includes lowerQuery ''what'' \<or> str_includes lowerQuery ''how''
             \<or> str_includes lowerQuery ''tell''
          then Some ''features'' else None)"

definition mentions_issue :: "string \<Rightarrow> bool" where
  "mentions_issue lowerMessage =
     (str_includes lowerMessage ''report'' \<or> str_includes lowerMessage ''issue''
      \<or> str_includes lowerMessage ''problem'' \<or> str_includes lowerMessage ''bug''
      \<or> str_includes lowerMessage ''not working'' \<or> str_includes lowerMessage ''error'')"

definition handleSend :: "chat \<Rightarrow> chat" where
  "handleSend s =
     (if trim (input s) = [] then s
      else
        let userMessage = trim (input s);
            s1 = (addMessage (UserSays userMessage) s)\<lparr>input := []\<rparr>;
            lowerMessage = toLowerCase userMessage
        in
        if mentions_issue lowerMessage then setTimeout AskForDescription s1
        else
          (case handleFeatureQuery userMessage of
             Some k \<Rightarrow> setTimeout (Reply (FeatureInfo k)) s1
           | None \<Rightarrow> setTimeout (Reply Help) s1))"

definition handleIssueSubmit :: "chat \<Rightarrow> chat" where
  "handleIssueSubmit s =
     (if trim (input s) = [] then s
      else
        setTimeout (Reply AskEmail)
          ((addMessage (UserSays (trim (input s))) (s\<lparr>reportedIssue := trim (input s)\<rparr>))
             \<lparr>input := []\<rparr>))"

definition handleEmailSubmit :: "chat \<Rightarrow> chat" where
  \<comment> \<open>up to the \<^verbatim>\<open>await\<close>: the invocation is issued with the trimmed e-mail and the
      recorded issue\<close>
  "handleEmailSubmit s =
     (if trim (email s) = [] \<or> \<not> str_includes (email s) ''@'' then s
      else
        (addMessage (UserSays (email s)) (s\<lparr>isSending := True\<rparr>))
          \<lparr>invocations := invocations s @ [(trim (email s), reportedIssue s)],
           awaiting := Some (email s)\<rparr>)"

definition email_sent :: "string \<Rightarrow> chat \<Rightarrow> chat" where
  \<comment> \<open>after the \<^verbatim>\<open>await\<close>, no error: the reset is scheduled, with the e-mail captured\<close>
  "email_sent captured s = (setTimeout (Thank captured) s)\<lparr>isSending := False, awaiting := None\<rparr>"

definition email_failed :: "chat \<Rightarrow> chat" where
  \<comment> \<open>after the \<^verbatim>\<open>await\<close>, the catch block\<close>
  "email_failed s = (addMessage (BotSays SendFailed) s)\<lparr>isSending := False, awaiting := None\<rparr>"

fun fire :: "callback \<Rightarrow> chat \<Rightarrow> chat" where
  "fire AskForDescription s = (addMessage (BotSays AskDescription) s)\<lparr>isReportingIssue := True\<rparr>"
| "fire (Reply t) s = addMessage (BotSays t) s"
| "fire (Thank e) s =
     (addMessage (BotSays (ThankYou e)) s)\<lparr>isReportingIssue := False, reportedIssue := [], email := []\<rparr>"

definition email_form_shown :: "chat \<Rightarrow> bool" where
  \<comment> \<open>\<^verbatim>\<open>isReportingIssue && reportedIssue\<close>: the e-mail form replaces the text area\<close>
  "email_form_shown s = (isReportingIssue s \<and> reportedIssue s \<noteq> [])"

datatype event =
    TypeText string
  | PressSend
  | TypeEmail string
  | PressSendEmail
  | EmailSent
  | EmailFailed
  | TimerFires

fun step :: "chat \<Rightarrow> event \<Rightarrow> chat option" where
  \<comment> \<open>\<open>None\<close>: the rendered form does not offer the event in that state\<close>
  "step s (TypeText t) = (if email_form_shown s then None else Some (s\<lparr>input := t\<rparr>))"
| "step s PressSend =
     (if email_form_shown s then None
      else Some (if isReportingIssue s then handleIssueSubmit s else handleSend s))"
| "step s (TypeEmail t) =
     (if email_form_shown s \<and> \<not> isSending s then Some (s\<lparr>email := t\<rparr>) else None)"
| "step s PressSendEmail =
     (if email_form_shown s \<and> \<not> isSending s then Some (handleEmailSubmit s) else None)"
| "step s EmailSent = (case awaiting s of None \<Rightarrow> None | Some e \<Rightarrow> Some (email_sent e s))"
| "step s EmailFailed = (case awaiting s of None \<Rightarrow> None | Some e \<Rightarrow> Some (email_failed s))"
| "step s TimerFires = (case timers s of [] \<Rightarrow> None | c # cs \<Rightarrow> Some (fire c (s\<lparr>timers := cs\<rparr>)))"

inductive reachable :: "chat \<Rightarrow> bool" where
  reachable_init: "reachable initial_chat"
| reachable_step: "reachable s \<Longrightarrow> step s e = Some s' \<Longrightarrow> reachable s'"

definition settle :: "chat \<Rightarrow> chat" where
  \<comment> \<open>every pending callback has run\<close>
  "settle s = fold fire (timers s) (s\<lparr>timers := []\<rparr>)"

datatype phase = Browsing | ReportingIssue | CollectingEmail

definition phase_of :: "chat \<Rightarrow> phase" where
  "phase_of s =
     (if \<not> isReportingIssue s then Browsing
      else if reportedIssue s = [] then ReportingIssue
      else CollectingEmail)"

fun steps :: "chat \<Rightarrow> event list \<Rightarrow> chat option" where
  \<comment> \<open>the events of a session, one after the other\<close>
  "steps s [] = Some s"
| "steps s (e # es) = (case step s e of None \<Rightarrow> None | Some s' \<Rightarrow> steps s' es)"

definition resubmitted_report :: "event list" where
  \<comment> \<open>a report is sent; within the 500 ms before its reset callback runs the send button
      is pressed again (\<^verbatim>\<open>isSending\<close> is false again, the form is still shown); the first
      reset runs; the user starts another report; the second invocation succeeds and
      schedules its own reset\<close>
  "resubmitted_report =
     [TypeText ''I found a bug'', PressSend, TimerFires,
      TypeText ''the page is blank'', PressSend, TimerFires,
      TypeEmail ''ann@example.org'', PressSendEmail, EmailSent,
      PressSendEmail,
      TimerFires,
      TypeText ''another problem'', PressSend, TimerFires,
      EmailSent]"

section \<open>Notions used in the statements\<close>

definition rejected_400 :: "(exn + response) \<times> world \<Rightarrow> world \<Rightarrow> bool" where
  \<comment> \<open>the outcome of a handler started in \<open>w\<close>: status 400, a JSON error body, and no
      request sent\<close>
  "rejected_400 out w =
     ((\<exists>hs m. fst out = Inr \<lparr>resp_status = 400, resp_headers = hs, resp_body = Some (error_body m)\<rparr>)
      \<and> requests (snd out) = requests w)"

fun try_block :: "handler \<Rightarrow> platform \<Rightarrow> request \<Rightarrow> response io" where
  \<comment> \<open>the body of the \<^verbatim>\<open>try\<close> statement of each handler\<close>
  "try_block SkinAnalyze = skin_analyze_try"
| "try_block ScanMedicine = scan_medicine_try"
| "try_block ExplainDiagnosis = explain_diagnosis_try"
| "try_block FindDoctorsNpi = find_doctors_npi_try"
| "try_block FindDoctorsApify = find_doctors_apify_try"
| "try_block FindDoctorsApify2 = find_doctors_apify2_try"
| "try_block SendCustomerEmail = send_customer_email_try False"
| "try_block SendCustomerEmail2 = send_customer_email_try True"

fun enters_try :: "handler \<Rightarrow> request \<Rightarrow> bool" where
  \<comment> \<open>the method checks made before the \<^verbatim>\<open>try\<close> statement let the request through\<close>
  "enters_try SkinAnalyze req = (req_method req = ''POST'')"
| "enters_try ExplainDiagnosis req = (req_method req = ''POST'')"
| "enters_try h req = (req_method req \<noteq> ''OPTIONS'')"

fun reads_json :: "handler \<Rightarrow> bool" where
  \<comment> \<open>the handlers that read their input with \<^verbatim>\<open>req.json()\<close>; skin-analyze reads form data\<close>
  "reads_json SkinAnalyze = False"
| "reads_json h = True"

definition error_500 :: "exn + response \<Rightarrow> bool" where
  \<comment> \<open>status 500 with a body of the shape \<^verbatim>\<open>{ "error": message }\<close>\<close>
  "error_500 res =
     (\<exists>hs m. res = Inr \<lparr>resp_status = 500, resp_headers = hs, resp_body = Some (error_body m)\<rparr>)"

section \<open>Proofs\<close>

subsection \<open>Running a handler\<close>

lemmas io_defs = seq_def ret_def throw_def lift_def try_catch_def console_log_def console_error_def
  console_error_exn_def fetch_def req_json_def up_json_def Let_def

lemmas handler_defs = skin_analyze_def skin_analyze_try_def scan_medicine_def scan_medicine_try_def
  explain_diagnosis_def explain_diagnosis_try_def find_doctors_npi_def find_doctors_npi_try_def
  find_doctors_apify_def find_doctors_apify_try_def find_doctors_apify2_def
  find_doctors_apify2_try_def apify_search_def find_doctors_catch_def send_customer_email_def
  send_customer_email_try_def

lemmas run_defs = run_def world0_def handler_defs io_defs json_response_def preflight_response_def

subsection \<open>formatPhone\<close>

lemma not_available_no_digit: "filter is_digit ''Not available'' = []"
  by (simp add: is_digit_def)

lemma formatPhone_ten:
  assumes "filter is_digit p = [a, b, c, d, e, f, g, h, i, j]"
  shows "formatPhone p = [CHR ''('', a, b, c, CHR '')'', CHR '' '', d, e, f, CHR ''-'', g, h, i, j]"
proof -
  have "p \<noteq> []" using assms by auto
  moreover have "p \<noteq> ''Not available''"
    using assms not_available_no_digit by auto
  ultimately show ?thesis
    using assms by (simp add: formatPhone_def slice_def)
qed

lemma formatPhone_other:
  assumes "length (filter is_digit p) \<noteq> 10"
  shows "formatPhone p = p"
  using assms by (simp add: formatPhone_def Let_def)

lemma digits_of_formatted:
  assumes "\<forall>x \<in> set [a, b, c, d, e, f, g, h, i, j]. is_digit x"
  shows "filter is_digit [CHR ''('', a, b, c, CHR '')'', CHR '' '', d, e, f, CHR ''-'', g, h, i, j]
         = [a, b, c, d, e, f, g, h, i, j]"
proof -
  have "\<not> is_digit CHR ''(''" "\<not> is_digit CHR '')''" "\<not> is_digit CHR '' ''" "\<not> is_digit CHR ''-''"
    by (simp_all add: is_digit_def)
  then show ?thesis using assms by simp
qed

lemma length_ten_cases:
  assumes "length xs = 10"
  obtains a b c d e f g h i j where "xs = [a, b, c, d, e, f, g, h, i, j]"
proof -
  from assms obtain a b c d e f g h i j r where "xs = a # b # c # d # e # f # g # h # i # j # r"
    by (auto simp: numeral_eq_Suc length_Suc_conv)
  with assms have "xs = [a, b, c, d, e, f, g, h, i, j]" by simp
  then show thesis by (rule that)
qed

lemma formatPhone_idem: "formatPhone (formatPhone p) = formatPhone p"
proof (cases "length (filter is_digit p) = 10")
  case False
  then show ?thesis by (simp add: formatPhone_other)
next
  case True
  then obtain a b c d e f g h i j where ds: "filter is_digit p = [a, b, c, d, e, f, g, h, i, j]"
    by (rule length_ten_cases)
  have "\<forall>x \<in> set (filter is_digit p). is_digit x" by simp
  then have dig: "\<forall>x \<in> set [a, b, c, d, e, f, g, h, i, j]. is_digit x"
    by (simp only: ds)
  have fp: "formatPhone p = [CHR ''('', a, b, c, CHR '')'', CHR '' '', d, e, f, CHR ''-'', g, h, i, j]"
    using ds by (rule formatPhone_ten)
  have "formatPhone (formatPhone p) = [CHR ''('', a, b, c, CHR '')'', CHR '' '', d, e, f, CHR ''-'', g, h, i, j]"
    unfolding fp by (rule formatPhone_ten) (rule digits_of_formatted [OF dig])
  then show ?thesis by (simp only: fp)
qed

text \<open>
  C10. \<open>formatPhone\<close> returns \<open>(abc) def-ghij\<close> whenever the digits of its input are
  exactly the ten digits \<open>abcdefghij\<close>, returns its input unchanged otherwise (the empty
  string and the placeholder \<open>Not available\<close> included), and is idempotent.
\<close>

theorem formatPhone_spec:
  "(filter is_digit p = [a, b, c, d, e, f, g, h, i, j] \<longrightarrow>
      formatPhone p = [CHR ''('', a, b, c, CHR '')'', CHR '' '', d, e, f, CHR ''-'', g, h, i, j])
   \<and> (length (filter is_digit p) \<noteq> 10 \<longrightarrow> formatPhone p = p)
   \<and> formatPhone [] = [] \<and> formatPhone ''Not available'' = ''Not available''
   \<and> formatPhone (formatPhone p) = formatPhone p"
proof (intro conjI impI)
  assume "filter is_digit p = [a, b, c, d, e, f, g, h, i, j]"
  then show "formatPhone p = [CHR ''('', a, b, c, CHR '')'', CHR '' '', d, e, f, CHR ''-'', g, h, i, j]"
    by (rule formatPhone_ten)
next
  assume "length (filter is_digit p) \<noteq> 10"
  then show "formatPhone p = p" by (rule formatPhone_other)
next
  show "formatPhone [] = []" by (simp add: formatPhone_def)
next
  show "formatPhone ''Not available'' = ''Not available''" by (simp add: formatPhone_def)
next
  show "formatPhone (formatPhone p) = formatPhone p" by (rule formatPhone_idem)
qed

theorem formatPhone_spec_witness:
  "filter is_digit ''555.123.4567'' = ''5551234567''
   \<and> formatPhone ''555.123.4567'' = ''(555) 123-4567''
   \<and> length (filter is_digit ''911'') \<noteq> 10 \<and> formatPhone ''911'' = ''911''
   \<and> formatPhone (formatPhone ''555.123.4567'') = formatPhone ''555.123.4567''"
  using formatPhone_spec [of "''555.123.4567''" "CHR ''5''" "CHR ''5''" "CHR ''5''" "CHR ''1''"
      "CHR ''2''" "CHR ''3''" "CHR ''4''" "CHR ''5''" "CHR ''6''" "CHR ''7''"]
    formatPhone_spec [of "''911''"]
  by (simp add: is_digit_def formatPhone_def slice_def)

subsection \<open>Base64 round trip\<close>






lemma div_bounds: fixes b :: nat assumes "b < 256" shows "b div 16 < 16" "b div 64 < 4"
  using assms by simp_all







subsection \<open>One outbound request\<close>

lemma skin_analyze_sends:
  "\<exists>rs. requests (snd (skin_analyze p req w)) = requests w @ rs \<and> length rs \<le> 1"
  by (simp add: skin_analyze_def skin_analyze_try_def io_defs
      split: sum.splits option.splits fetch_outcome.splits)

lemma scan_medicine_sends:
  "\<exists>rs. requests (snd (scan_medicine p req w)) = requests w @ rs \<and> length rs \<le> 1"
  by (simp add: scan_medicine_def scan_medicine_try_def io_defs
      split: sum.splits option.splits fetch_outcome.splits)

lemma explain_diagnosis_sends:
  "\<exists>rs. requests (snd (explain_diagnosis p req w)) = requests w @ rs \<and> length rs \<le> 1"
  by (simp add: explain_diagnosis_def explain_diagnosis_try_def io_defs
      split: sum.splits option.splits fetch_outcome.splits)

lemma find_doctors_npi_sends:
  "\<exists>rs. requests (snd (find_doctors_npi p req w)) = requests w @ rs \<and> length rs \<le> 1"
  by (simp add: find_doctors_npi_def find_doctors_npi_try_def find_doctors_catch_def io_defs
      split: sum.splits option.splits fetch_outcome.splits)

lemma find_doctors_apify_sends:
  "\<exists>rs. requests (snd (find_doctors_apify p req w)) = requests w @ rs \<and> length rs \<le> 1"
  by (simp add: find_doctors_apify_def find_doctors_apify_try_def apify_search_def
      find_doctors_catch_def io_defs split: sum.splits option.splits fetch_outcome.splits)

lemma find_doctors_apify2_sends:
  "\<exists>rs. requests (snd (find_doctors_apify2 p req w)) = requests w @ rs \<and> length rs \<le> 1"
  by (simp add: find_doctors_apify2_def find_doctors_apify2_try_def apify_search_def
      find_doctors_catch_def io_defs split: sum.splits option.splits fetch_outcome.splits)

lemma send_customer_email_sends:
  "\<exists>rs. requests (snd (send_customer_email b p req w)) = requests w @ rs \<and> length rs \<le> 1"
  by (simp add: send_customer_email_def send_customer_email_try_def io_defs
      split: sum.splits option.splits fetch_outcome.splits)

text \<open>
  C7. Every invocation of every handler performs at most one outbound request: whatever
  the network answers (a rejected \<^verbatim>\<open>fetch\<close> and an error status included), the requests
  sent when the handler returns are those sent before it started and at most one more.
\<close>

theorem one_outbound_request:
  "\<exists>rs. requests (snd (handle h p req w)) = requests w @ rs \<and> length rs \<le> 1"
  by (cases h)
    (simp_all only: handle.simps skin_analyze_sends scan_medicine_sends explain_diagnosis_sends
      find_doctors_npi_sends find_doctors_apify_sends find_doctors_apify2_sends
      send_customer_email_sends)

theorem one_outbound_request_witness:
  "length (requests (snd (run (handle SendCustomerEmail
      (demo_platform all_keys (\<lambda>n r. Rejected (JsTypeError ''error sending request'')))
      (post_json report_text))))) = 1"
  using one_outbound_request [of SendCustomerEmail
      "demo_platform all_keys (\<lambda>n r. Rejected (JsTypeError ''error sending request''))"
      "post_json report_text" world0]
  by (simp add: run_def world0_def send_customer_email_def send_customer_email_try_def io_defs
      demo_defs destructure_def is_set_def to_str_def)

subsection \<open>CORS headers\<close>

lemma cors_lists:
  "map_of corsHeaders acao = Some ''*''"
  "map_of corsHeaders acah = Some allowed_headers"
  "map_of (spread corsHeaders content_type_json) acao = Some ''*''"
  "map_of (spread corsHeaders content_type_json) acah = Some allowed_headers"
  "map_of (spread content_type_json corsHeaders) acao = Some ''*''"
  "map_of (spread content_type_json corsHeaders) acah = Some allowed_headers"
  "map_of baseCorsHeaders acao = Some ''*''"
  "map_of baseCorsHeaders acah = Some allowed_headers"
  "map_of (spread baseCorsHeaders content_type_json) acao = Some ''*''"
  "map_of (spread baseCorsHeaders content_type_json) acah = Some allowed_headers"
  by (simp_all add: corsHeaders_def baseCorsHeaders_def content_type_json_def spread_def acao_def
      acah_def allowed_headers_def)

lemma withCors_lists:
  "map_of (withCors req []) acao = Some (origin_of req)"
  "map_of (withCors req []) acah = Some allowed_headers"
  "map_of (withCors req content_type_json) acao = Some (origin_of req)"
  "map_of (withCors req content_type_json) acah = Some allowed_headers"
  by (simp_all add: withCors_def baseCorsHeaders_def content_type_json_def spread_def acao_def
      acah_def allowed_headers_def)

lemma skin_analyze_headers:
  assumes "skin_analyze p req w = (Inr r, w')"
  shows "resp_headers r = withCors req [] \<or> resp_headers r = withCors req content_type_json"
  using assms
  by (auto simp add: skin_analyze_def skin_analyze_try_def io_defs json_response_def
      preflight_response_def split: sum.splits option.splits fetch_outcome.splits if_splits)

lemma scan_medicine_headers:
  assumes "scan_medicine p req w = (Inr r, w')"
  shows "resp_headers r = corsHeaders \<or> resp_headers r = spread corsHeaders content_type_json"
  using assms
  by (auto simp add: scan_medicine_def scan_medicine_try_def io_defs json_response_def
      preflight_response_def split: sum.splits option.splits fetch_outcome.splits if_splits)

lemma explain_diagnosis_headers:
  assumes "explain_diagnosis p req w = (Inr r, w')"
  shows "resp_headers r = baseCorsHeaders \<or> resp_headers r = spread baseCorsHeaders content_type_json"
  using assms
  by (auto simp add: explain_diagnosis_def explain_diagnosis_try_def io_defs json_response_def
      preflight_response_def split: sum.splits option.splits fetch_outcome.splits if_splits)

lemma find_doctors_npi_headers:
  assumes "find_doctors_npi p req w = (Inr r, w')"
  shows "resp_headers r = corsHeaders \<or> resp_headers r = spread corsHeaders content_type_json"
  using assms
  by (auto simp add: find_doctors_npi_def find_doctors_npi_try_def find_doctors_catch_def io_defs
      json_response_def preflight_response_def
      split: sum.splits option.splits fetch_outcome.splits if_splits)

lemma find_doctors_apify_headers:
  assumes "find_doctors_apify p req w = (Inr r, w')"
  shows "resp_headers r = corsHeaders \<or> resp_headers r = spread corsHeaders content_type_json"
  using assms
  by (auto simp add: find_doctors_apify_def find_doctors_apify_try_def apify_search_def
      find_doctors_catch_def io_defs json_response_def preflight_response_def
      split: sum.splits option.splits fetch_outcome.splits if_splits)

lemma find_doctors_apify2_headers:
  assumes "find_doctors_apify2 p req w = (Inr r, w')"
  shows "resp_headers r = corsHeaders \<or> resp_headers r = spread corsHeaders content_type_json"
  using assms
  by (auto simp add: find_doctors_apify2_def find_doctors_apify2_try_def apify_search_def
      find_doctors_catch_def io_defs json_response_def preflight_response_def
      split: sum.splits option.splits fetch_outcome.splits if_splits)

lemma send_customer_email_headers:
  assumes "send_customer_email b p req w = (Inr r, w')"
  shows "resp_headers r = corsHeaders \<or> resp_headers r = spread content_type_json corsHeaders"
  using assms
  by (auto simp add: send_customer_email_def send_customer_email_try_def io_defs json_response_def
      preflight_response_def split: sum.splits option.splits fetch_outcome.splits if_splits)

text \<open>
  C4. Every response that a handler returns (the preflight response, a success, and
  every error branch) carries \<open>Access-Control-Allow-Origin\<close> and
  \<open>Access-Control-Allow-Headers\<close>: the origin allowed is \<open>*\<close>, and in skin-analyze the
  origin of the request when it names one; the headers allowed are those of
  \<open>allowed_headers\<close>.
\<close>

theorem cors_on_every_response:
  assumes "handle h p req w = (Inr r, w')"
  shows "map_of (resp_headers r) acao = Some (if h = SkinAnalyze then origin_of req else ''*'')
    \<and> map_of (resp_headers r) acah = Some allowed_headers"
proof (cases h)
  case SkinAnalyze
  with assms skin_analyze_headers [of p req w r w'] show ?thesis
    by (auto simp: withCors_lists)
next
  case ScanMedicine
  with assms scan_medicine_headers [of p req w r w'] show ?thesis
    by (auto simp: cors_lists)
next
  case ExplainDiagnosis
  with assms explain_diagnosis_headers [of p req w r w'] show ?thesis
    by (auto simp: cors_lists)
next
  case FindDoctorsNpi
  with assms find_doctors_npi_headers [of p req w r w'] show ?thesis
    by (auto simp: cors_lists)
next
  case FindDoctorsApify
  with assms find_doctors_apify_headers [of p req w r w'] show ?thesis
    by (auto simp: cors_lists)
next
  case FindDoctorsApify2
  with assms find_doctors_apify2_headers [of p req w r w'] show ?thesis
    by (auto simp: cors_lists)
next
  case SendCustomerEmail
  with assms send_customer_email_headers [of False p req w r w'] show ?thesis
    by (auto simp: cors_lists)
next
  case SendCustomerEmail2
  with assms send_customer_email_headers [of True p req w r w'] show ?thesis
    by (auto simp: cors_lists)
qed

theorem cors_on_every_response_witness:
  "handle SkinAnalyze (demo_platform [] (answers 200 [])) (preflight_from ''https://medibot.example'') world0
     = (Inr (preflight_response (withCors (preflight_from ''https://medibot.example'') [])), world0)
   \<and> map_of (resp_headers (preflight_response (withCors (preflight_from ''https://medibot.example'') [])))
        acao = Some ''https://medibot.example''
   \<and> map_of (resp_headers (preflight_response (withCors (preflight_from ''https://medibot.example'') [])))
        acah = Some allowed_headers"
proof -
  have r: "handle SkinAnalyze (demo_platform [] (answers 200 [])) (preflight_from ''https://medibot.example'') world0
     = (Inr (preflight_response (withCors (preflight_from ''https://medibot.example'') [])), world0)"
    by (simp add: skin_analyze_def preflight_from_def ret_def)
  show ?thesis
    using r cors_on_every_response [OF r]
    by (simp add: origin_of_def preflight_from_def)
qed

subsection \<open>What an upstream error status becomes\<close>

lemma explain_diagnosis_passes:
  assumes "run (explain_diagnosis p req) = (res, w')" "requests w' = [r]"
    "network p 0 r = Responded u" "up_status u = 429 \<or> up_status u = 402"
  shows "\<exists>m. res = Inr \<lparr>resp_status = up_status u,
      resp_headers = spread baseCorsHeaders content_type_json, resp_body = Some (error_body m)\<rparr>"
  using assms
  by (auto simp add: run_def world0_def explain_diagnosis_def explain_diagnosis_try_def io_defs
      json_response_def ok_def split: sum.splits option.splits fetch_outcome.splits if_splits)

lemma scan_medicine_passes_429:
  assumes "run (scan_medicine p req) = (res, w')" "requests w' = [r]"
    "network p 0 r = Responded u" "up_status u = 429"
  shows "\<exists>m. res = Inr \<lparr>resp_status = 429,
      resp_headers = spread corsHeaders content_type_json, resp_body = Some (error_body m)\<rparr>"
  using assms
  by (auto simp add: run_def world0_def scan_medicine_def scan_medicine_try_def io_defs
      json_response_def ok_def split: sum.splits option.splits fetch_outcome.splits if_splits)

lemma skin_analyze_collapses:
  assumes "run (skin_analyze p req) = (res, w')" "requests w' = [r]"
    "network p 0 r = Responded u" "\<not> ok u"
  shows "\<exists>m. res = Inr \<lparr>resp_status = 502,
      resp_headers = withCors req content_type_json, resp_body = Some (error_body m)\<rparr>"
  using assms
  by (auto simp add: run_def world0_def skin_analyze_def skin_analyze_try_def io_defs
      json_response_def split: sum.splits option.splits fetch_outcome.splits if_splits)

lemma find_doctors_npi_collapses:
  assumes "run (find_doctors_npi p req) = (res, w')" "requests w' = [r]"
    "network p 0 r = Responded u" "\<not> ok u"
  shows "\<exists>m. res = Inr \<lparr>resp_status = 500,
      resp_headers = spread corsHeaders content_type_json, resp_body = Some (error_body m)\<rparr>"
  using assms
  by (auto simp add: run_def world0_def find_doctors_npi_def find_doctors_npi_try_def
      find_doctors_catch_def io_defs json_response_def
      split: sum.splits option.splits fetch_outcome.splits if_splits)

lemma find_doctors_apify_collapses:
  assumes "run (find_doctors_apify p req) = (res, w')" "requests w' = [r]"
    "network p 0 r = Responded u" "\<not> ok u"
  shows "\<exists>m. res = Inr \<lparr>resp_status = 500,
      resp_headers = spread corsHeaders content_type_json, resp_body = Some (error_body m)\<rparr>"
  using assms
  by (auto simp add: run_def world0_def find_doctors_apify_def find_doctors_apify_try_def
      apify_search_def find_doctors_catch_def io_defs json_response_def
      split: sum.splits option.splits fetch_outcome.splits if_splits)

lemma find_doctors_apify2_collapses:
  assumes "run (find_doctors_apify2 p req) = (res, w')" "requests w' = [r]"
    "network p 0 r = Responded u" "\<not> ok u"
  shows "\<exists>m. res = Inr \<lparr>resp_status = 500,
      resp_headers = spread corsHeaders content_type_json, resp_body = Some (error_body m)\<rparr>"
  using assms
  by (auto simp add: run_def world0_def find_doctors_apify2_def find_doctors_apify2_try_def
      apify_search_def find_doctors_catch_def io_defs json_response_def
      split: sum.splits option.splits fetch_outcome.splits if_splits)

lemma send_customer_email_collapses:
  assumes "run (send_customer_email b p req) = (res, w')" "requests w' = [r]"
    "network p 0 r = Responded u" "\<not> ok u"
  shows "\<exists>m. res = Inr \<lparr>resp_status = 500,
      resp_headers = spread content_type_json corsHeaders, resp_body = Some (error_body m)\<rparr>"
  using assms
  by (auto simp add: run_def world0_def send_customer_email_def send_customer_email_try_def
      io_defs json_response_def split: sum.splits option.splits fetch_outcome.splits if_splits)

lemma error_status_not_ok: "up_status u = 429 \<or> up_status u = 402 \<Longrightarrow> \<not> ok u"
  by (auto simp: ok_def)

text \<open>
  C1, as the code has it. When the provider answers the one request of an invocation
  with status 429 or 402, the handler returns a JSON error body, with a status that
  depends on the handler: explain-diagnosis returns the provider's status (429 or 402);
  scan-medicine returns 429 for 429; skin-analyze returns 502; the find-doctors handlers
  and send-customer-email return 500.
\<close>

theorem upstream_error_status:
  assumes "run (handle h p req) = (res, w')" and "requests w' = [r]"
    and "network p 0 r = Responded u" and "up_status u = 429 \<or> up_status u = 402"
  shows "\<exists>hs m st. res = Inr \<lparr>resp_status = st, resp_headers = hs, resp_body = Some (error_body m)\<rparr>
    \<and> (h = ExplainDiagnosis \<longrightarrow> st = up_status u)
    \<and> (h = ScanMedicine \<and> up_status u = 429 \<longrightarrow> st = 429)
    \<and> (h = SkinAnalyze \<longrightarrow> st = 502)
    \<and> (h \<in> {FindDoctorsNpi, FindDoctorsApify, FindDoctorsApify2, SendCustomerEmail,
              SendCustomerEmail2} \<longrightarrow> st = 500)"
proof (cases h)
  case SkinAnalyze
  with assms skin_analyze_collapses [of p req res w' r u] error_status_not_ok [of u]
  show ?thesis by auto
next
  case ScanMedicine
  show ?thesis
  proof (cases "up_status u = 429")
    case True
    with ScanMedicine assms scan_medicine_passes_429 [of p req res w' r u]
    show ?thesis by auto
  next
    case False
    have "run (scan_medicine p req) = (res, w')" using ScanMedicine assms(1) by simp
    then have "\<exists>hs m st. res = Inr \<lparr>resp_status = st, resp_headers = hs, resp_body = Some (error_body m)\<rparr>"
      using assms(2-4) False
      by (auto simp add: run_def world0_def scan_medicine_def scan_medicine_try_def io_defs
          json_response_def ok_def split: sum.splits option.splits fetch_outcome.splits if_splits)
    with ScanMedicine False show ?thesis by auto
  qed
next
  case ExplainDiagnosis
  with assms explain_diagnosis_passes [of p req res w' r u]
  show ?thesis by auto
next
  case FindDoctorsNpi
  with assms find_doctors_npi_collapses [of p req res w' r u] error_status_not_ok [of u]
  show ?thesis by auto
next
  case FindDoctorsApify
  with assms find_doctors_apify_collapses [of p req res w' r u] error_status_not_ok [of u]
  show ?thesis by auto
next
  case FindDoctorsApify2
  with assms find_doctors_apify2_collapses [of p req res w' r u] error_status_not_ok [of u]
  show ?thesis by auto
next
  case SendCustomerEmail
  with assms send_customer_email_collapses [of False p req res w' r u] error_status_not_ok [of u]
  show ?thesis by auto
next
  case SendCustomerEmail2
  with assms send_customer_email_collapses [of True p req res w' r u] error_status_not_ok [of u]
  show ?thesis by auto
qed

theorem upstream_error_status_witness:
  "requests (snd (run (handle ExplainDiagnosis (demo_platform all_keys (answers 402 [])) (post_json disease_text))))
     = [hd (requests (snd (run (handle ExplainDiagnosis (demo_platform all_keys (answers 402 []))
          (post_json disease_text)))))]
   \<and> network (demo_platform all_keys (answers 402 [])) 0
        (hd (requests (snd (run (handle ExplainDiagnosis (demo_platform all_keys (answers 402 []))
          (post_json disease_text))))))
     = Responded \<lparr>up_status = 402, up_text = []\<rparr>
   \<and> (\<exists>hs m. fst (run (handle ExplainDiagnosis (demo_platform all_keys (answers 402 [])) (post_json disease_text)))
        = Inr \<lparr>resp_status = 402, resp_headers = hs, resp_body = Some (error_body m)\<rparr>)"
proof -
  let ?p = "demo_platform all_keys (answers 402 [])"
  let ?x = "run (handle ExplainDiagnosis ?p (post_json disease_text))"
  have a: "?x = (fst ?x, snd ?x)" by simp
  have b: "requests (snd ?x) = [hd (requests (snd ?x))]"
    by (simp add: run_defs demo_defs is_set_def destructure_def default_to_def explain_prompts_def
        and_then_def to_str_def or_js_def ok_def)
  have c: "network ?p 0 (hd (requests (snd ?x))) = Responded \<lparr>up_status = 402, up_text = []\<rparr>"
    by (simp add: demo_platform_def answers_def)
  have d: "up_status \<lparr>up_status = 402, up_text = []\<rparr> = 429 \<or> up_status \<lparr>up_status = 402, up_text = []\<rparr> = 402"
    by simp
  from upstream_error_status [OF a b c d] b c show ?thesis by auto
qed

text \<open>
  C1 as stated fails: skin-analyze answers a 429 of the provider with 502.
\<close>

theorem passthrough_counterexample:
  "network (demo_platform all_keys (answers 429 [])) 0
      (hd (requests (snd (run (handle SkinAnalyze (demo_platform all_keys (answers 429 []))
        (post_form [(''file'', FormFile photo), (''symptoms'', FormText ''itchy rash'')]))))))
     = Responded \<lparr>up_status = 429, up_text = []\<rparr>
   \<and> length (requests (snd (run (handle SkinAnalyze (demo_platform all_keys (answers 429 []))
        (post_form [(''file'', FormFile photo), (''symptoms'', FormText ''itchy rash'')]))))) = 1
   \<and> map_sum id resp_status (fst (run (handle SkinAnalyze (demo_platform all_keys (answers 429 []))
        (post_form [(''file'', FormFile photo), (''symptoms'', FormText ''itchy rash'')]))))
     = Inr 502"
  by (simp add: run_defs demo_defs is_set_def as_file_def entry_string_def trim_def is_space_def
      ok_def)

subsection \<open>Missing input\<close>

lemma skin_analyze_missing:
  assumes "req_form req = Inr form"
    and "as_file (map_of form ''file'') = None \<or> trim (entry_string (map_of form ''symptoms'') []) = []"
  shows "requests (snd (skin_analyze p req w)) = requests w"
    and "req_method req = ''POST'' \<Longrightarrow> is_set (env_get p ''LOVABLE_API_KEY'') \<Longrightarrow>
      rejected_400 (skin_analyze p req w) w"
  using assms
  by (auto simp add: skin_analyze_def skin_analyze_try_def io_defs json_response_def
      preflight_response_def rejected_400_def error_body_def split: option.splits)

lemma scan_medicine_missing:
  assumes "json_parse p (req_text req) = Inr body" and "\<not> truthy (js_prop body ''image'')"
  shows "requests (snd (scan_medicine p req w)) = requests w"
    and "req_method req \<noteq> ''OPTIONS'' \<Longrightarrow> \<not> nullish body \<Longrightarrow> rejected_400 (scan_medicine p req w) w"
  using assms
  by (simp_all add: error_body_def scan_medicine_def scan_medicine_try_def io_defs json_response_def
      preflight_response_def rejected_400_def destructure_def)

lemma explain_diagnosis_missing:
  assumes "json_parse p (req_text req) = Inr body" and "\<not> truthy (js_prop body ''disease'')"
  shows "requests (snd (explain_diagnosis p req w)) = requests w"
    and "req_method req = ''POST'' \<Longrightarrow> is_set (env_get p ''LOVABLE_API_KEY'') \<Longrightarrow> \<not> nullish body \<Longrightarrow>
      rejected_400 (explain_diagnosis p req w) w"
  using assms
  by (simp_all add: error_body_def explain_diagnosis_def explain_diagnosis_try_def io_defs json_response_def
      preflight_response_def rejected_400_def destructure_def)

lemma find_doctors_npi_missing:
  assumes "json_parse p (req_text req) = Inr body"
    and "\<not> truthy (js_prop body ''zipCode'')" and "\<not> truthy (js_prop body ''city'')"
  shows "requests (snd (find_doctors_npi p req w)) = requests w"
    and "req_method req \<noteq> ''OPTIONS'' \<Longrightarrow> \<not> nullish body \<Longrightarrow> rejected_400 (find_doctors_npi p req w) w"
  using assms
  by (simp_all add: error_body_def find_doctors_npi_def find_doctors_npi_try_def find_doctors_catch_def io_defs
      json_response_def preflight_response_def rejected_400_def destructure_def)

lemma find_doctors_apify_missing:
  assumes "json_parse p (req_text req) = Inr body"
    and "\<not> truthy (js_prop body ''pinCode'')" and "\<not> truthy (js_prop body ''city'')"
  shows "requests (snd (find_doctors_apify p req w)) = requests w"
    and "requests (snd (find_doctors_apify2 p req w)) = requests w"
    and "req_method req \<noteq> ''OPTIONS'' \<Longrightarrow> \<not> nullish body \<Longrightarrow> rejected_400 (find_doctors_apify p req w) w"
    and "req_method req \<noteq> ''OPTIONS'' \<Longrightarrow> \<not> nullish body \<Longrightarrow> rejected_400 (find_doctors_apify2 p req w) w"
  using assms
  by (simp_all add: error_body_def find_doctors_apify_def find_doctors_apify_try_def find_doctors_apify2_def
      find_doctors_apify2_try_def apify_search_def find_doctors_catch_def io_defs
      json_response_def preflight_response_def rejected_400_def destructure_def)

text \<open>
  C2, as the code has it. A request whose body can be read and that lacks a required
  input (the file or the symptoms in skin-analyze, the image in scan-medicine, the
  disease in explain-diagnosis, both the zip or pin code and the city in the
  find-doctors handlers) never causes an outbound request. It is answered with status
  400 and a JSON error body when it also passes the checks that the handler makes
  first: the method is POST and the API key is configured in skin-analyze and
  explain-diagnosis; elsewhere the method is not OPTIONS; a JSON body is not
  \<^verbatim>\<open>null\<close>.
\<close>

theorem missing_input_rejected:
  "(req_form req = Inr form \<and>
      (as_file (map_of form ''file'') = None \<or> trim (entry_string (map_of form ''symptoms'') []) = [])
    \<longrightarrow> requests (snd (skin_analyze p req w)) = requests w
      \<and> (req_method req = ''POST'' \<and> is_set (env_get p ''LOVABLE_API_KEY'')
           \<longrightarrow> rejected_400 (skin_analyze p req w) w))
   \<and> (json_parse p (req_text req) = Inr body \<and> \<not> truthy (js_prop body ''image'')
    \<longrightarrow> requests (snd (scan_medicine p req w)) = requests w
      \<and> (req_method req \<noteq> ''OPTIONS'' \<and> \<not> nullish body \<longrightarrow> rejected_400 (scan_medicine p req w) w))
   \<and> (json_parse p (req_text req) = Inr body \<and> \<not> truthy (js_prop body ''disease'')
    \<longrightarrow> requests (snd (explain_diagnosis p req w)) = requests w
      \<and> (req_method req = ''POST'' \<and> is_set (env_get p ''LOVABLE_API_KEY'') \<and> \<not> nullish body
           \<longrightarrow> rejected_400 (explain_diagnosis p req w) w))
   \<and> (json_parse p (req_text req) = Inr body \<and> \<not> truthy (js_prop body ''zipCode'')
        \<and> \<not> truthy (js_prop body ''city'')
    \<longrightarrow> requests (snd (find_doctors_npi p req w)) = requests w
      \<and> (req_method req \<noteq> ''OPTIONS'' \<and> \<not> nullish body \<longrightarrow> rejected_400 (find_doctors_npi p req w) w))
   \<and> (json_parse p (req_text req) = Inr body \<and> \<not> truthy (js_prop body ''pinCode'')
        \<and> \<not> truthy (js_prop body ''city'')
    \<longrightarrow> requests (snd (find_doctors_apify p req w)) = requests w
      \<and> requests (snd (find_doctors_apify2 p req w)) = requests w
      \<and> (req_method req \<noteq> ''OPTIONS'' \<and> \<not> nullish body
           \<longrightarrow> rejected_400 (find_doctors_apify p req w) w \<and> rejected_400 (find_doctors_apify2 p req w) w))"
proof (intro conjI impI; elim conjE)
  assume a: "req_form req = Inr form"
    "as_file (map_of form ''file'') = None \<or> trim (entry_string (map_of form ''symptoms'') []) = []"
  show "requests (snd (skin_analyze p req w)) = requests w"
    using a by (rule skin_analyze_missing(1))
  assume "req_method req = ''POST''" "is_set (env_get p ''LOVABLE_API_KEY'')"
  then show "rejected_400 (skin_analyze p req w) w"
    by (rule skin_analyze_missing(2) [OF a])
next
  assume a: "json_parse p (req_text req) = Inr body" "\<not> truthy (js_prop body ''image'')"
  show "requests (snd (scan_medicine p req w)) = requests w"
    using a by (rule scan_medicine_missing(1))
  assume "req_method req \<noteq> ''OPTIONS''" "\<not> nullish body"
  then show "rejected_400 (scan_medicine p req w) w"
    by (rule scan_medicine_missing(2) [OF a])
next
  assume a: "json_parse p (req_text req) = Inr body" "\<not> truthy (js_prop body ''disease'')"
  show "requests (snd (explain_diagnosis p req w)) = requests w"
    using a by (rule explain_diagnosis_missing(1))
  assume "req_method req = ''POST''" "is_set (env_get p ''LOVABLE_API_KEY'')" "\<not> nullish body"
  then show "rejected_400 (explain_diagnosis p req w) w"
    by (rule explain_diagnosis_missing(2) [OF a])
next
  assume a: "json_parse p (req_text req) = Inr body" "\<not> truthy (js_prop body ''zipCode'')"
    "\<not> truthy (js_prop body ''city'')"
  show "requests (snd (find_doctors_npi p req w)) = requests w"
    using a by (rule find_doctors_npi_missing(1))
  assume "req_method req \<noteq> ''OPTIONS''" "\<not> nullish body"
  then show "rejected_400 (find_doctors_npi p req w) w"
    by (rule find_doctors_npi_missing(2) [OF a])
next
  assume a: "json_parse p (req_text req) = Inr body" "\<not> truthy (js_prop body ''pinCode'')"
    "\<not> truthy (js_prop body ''city'')"
  show "requests (snd (find_doctors_apify p req w)) = requests w"
    using a by (rule find_doctors_apify_missing(1))
  show "requests (snd (find_doctors_apify2 p req w)) = requests w"
    using a by (rule find_doctors_apify_missing(2))
  assume b: "req_method req \<noteq> ''OPTIONS''" "\<not> nullish body"
  show "rejected_400 (find_doctors_apify p req w) w"
    using b by (rule find_doctors_apify_missing(3) [OF a])
  show "rejected_400 (find_doctors_apify2 p req w) w"
    using b by (rule find_doctors_apify_missing(4) [OF a])
qed

theorem missing_input_rejected_witness:
  "json_parse (demo_platform all_keys (answers 200 [])) (req_text (post_json empty_object_text)) = Inr (JObj [])
   \<and> js_prop (JObj []) ''disease'' = JUndefined
   \<and> requests (snd (explain_diagnosis (demo_platform all_keys (answers 200 [])) (post_json empty_object_text) world0)) = []
   \<and> rejected_400 (explain_diagnosis (demo_platform all_keys (answers 200 [])) (post_json empty_object_text) world0) world0"
  using missing_input_rejected [of "post_json empty_object_text" "[]"
      "demo_platform all_keys (answers 200 [])" world0 "JObj []"]
  by (simp add: demo_defs is_set_def world0_def)

text \<open>
  C2 as stated fails: explain-diagnosis checks the API key before it reads the body, so
  without the key a request that lacks the disease is answered with 500; and it checks
  the method first, so the same body sent with PUT is answered with 405.
\<close>

theorem missing_input_counterexample:
  "json_parse (demo_platform [] (answers 200 [])) (req_text (post_json empty_object_text)) = Inr (JObj [])
   \<and> js_prop (JObj []) ''disease'' = JUndefined
   \<and> fst (run (handle ExplainDiagnosis (demo_platform [] (answers 200 [])) (post_json empty_object_text)))
       = Inr (json_response 500 (spread baseCorsHeaders content_type_json) (error_body ''AI configuration error''))
   \<and> fst (run (handle ExplainDiagnosis (demo_platform all_keys (answers 200 []))
         ((post_json empty_object_text)\<lparr>req_method := ''PUT''\<rparr>)))
       = Inr (json_response 405 (spread baseCorsHeaders content_type_json) (error_body ''Method not allowed''))"
  by (simp add: run_defs demo_defs is_set_def)

subsection \<open>Exceptions\<close>

lemma handle_total: "\<exists>r. fst (handle h p req w) = Inr r"
  by (cases h)
    (simp_all add: handler_defs io_defs split: sum.splits option.splits fetch_outcome.splits)

lemma try_block_caught:
  assumes "enters_try h req" and "try_block h p req w = (Inl e, w1)"
  shows "error_500 (fst (handle h p req w))
    \<and> (\<exists>label. snd (handle h p req w) = w1\<lparr>console := console w1 @ [ErrorExn label e]\<rparr>)"
  using assms
  by (cases h)
    (auto simp add: skin_analyze_def scan_medicine_def explain_diagnosis_def find_doctors_npi_def
      find_doctors_apify_def find_doctors_apify2_def send_customer_email_def find_doctors_catch_def
      try_catch_def seq_def console_error_exn_def ret_def json_response_def error_500_def)

lemma unreadable_body:
  assumes "enters_try h req"
    and "if reads_json h then json_parse p (req_text req) = Inl e else req_form req = Inl e"
  shows "error_500 (fst (handle h p req w))"
  using assms
  by (cases h)
    (auto simp add: handler_defs io_defs json_response_def error_500_def)

lemma skin_analyze_rejected:
  assumes "run (skin_analyze p req) = (res, w')" "requests w' = [r]" "network p 0 r = Rejected e"
  shows "error_500 res \<and> (\<exists>label. ErrorExn label e \<in> set (console w'))"
  using assms
  by (auto simp add: run_def world0_def skin_analyze_def skin_analyze_try_def io_defs
      json_response_def error_500_def split: sum.splits option.splits fetch_outcome.splits if_splits)

lemma scan_medicine_rejected:
  assumes "run (scan_medicine p req) = (res, w')" "requests w' = [r]" "network p 0 r = Rejected e"
  shows "error_500 res \<and> (\<exists>label. ErrorExn label e \<in> set (console w'))"
  using assms
  by (auto simp add: run_def world0_def scan_medicine_def scan_medicine_try_def io_defs
      json_response_def error_500_def split: sum.splits option.splits fetch_outcome.splits if_splits)

lemma explain_diagnosis_rejected:
  assumes "run (explain_diagnosis p req) = (res, w')" "requests w' = [r]" "network p 0 r = Rejected e"
  shows "error_500 res \<and> (\<exists>label. ErrorExn label e \<in> set (console w'))"
  using assms
  by (auto simp add: run_def world0_def explain_diagnosis_def explain_diagnosis_try_def io_defs
      json_response_def error_500_def split: sum.splits option.splits fetch_outcome.splits if_splits)

lemma find_doctors_npi_rejected:
  assumes "run (find_doctors_npi p req) = (res, w')" "requests w' = [r]" "network p 0 r = Rejected e"
  shows "error_500 res \<and> (\<exists>label. ErrorExn label e \<in> set (console w'))"
  using assms
  by (auto simp add: run_def world0_def find_doctors_npi_def find_doctors_npi_try_def
      find_doctors_catch_def io_defs json_response_def error_500_def
      split: sum.splits option.splits fetch_outcome.splits if_splits)

lemma find_doctors_apify_rejected:
  assumes "run (find_doctors_apify p req) = (res, w')" "requests w' = [r]" "network p 0 r = Rejected e"
  shows "error_500 res \<and> (\<exists>label. ErrorExn label e \<in> set (console w'))"
  using assms
  by (auto simp add: run_def world0_def find_doctors_apify_def find_doctors_apify_try_def
      apify_search_def find_doctors_catch_def io_defs json_response_def error_500_def
      split: sum.splits option.splits fetch_outcome.splits if_splits)

lemma find_doctors_apify2_rejected:
  assumes "run (find_doctors_apify2 p req) = (res, w')" "requests w' = [r]" "network p 0 r = Rejected e"
  shows "error_500 res \<and> (\<exists>label. ErrorExn label e \<in> set (console w'))"
  using assms
  by (auto simp add: run_def world0_def find_doctors_apify2_def find_doctors_apify2_try_def
      apify_search_def find_doctors_catch_def io_defs json_response_def error_500_def
      split: sum.splits option.splits fetch_outcome.splits if_splits)

lemma send_customer_email_rejected:
  assumes "run (send_customer_email b p req) = (res, w')" "requests w' = [r]" "network p 0 r = Rejected e"
  shows "error_500 res \<and> (\<exists>label. ErrorExn label e \<in> set (console w'))"
  using assms
  by (auto simp add: run_def world0_def send_customer_email_def send_customer_email_try_def
      io_defs json_response_def error_500_def
      split: sum.splits option.splits fetch_outcome.splits if_splits)

lemma rejected_fetch:
  assumes "requests (snd (run (handle h p req))) = [r]" and "network p 0 r = Rejected e"
  shows "error_500 (fst (run (handle h p req)))
    \<and> (\<exists>label. ErrorExn label e \<in> set (console (snd (run (handle h p req)))))"
proof -
  obtain res w' where x: "run (handle h p req) = (res, w')" by (cases "run (handle h p req)")
  with assms have "requests w' = [r]" by simp
  with x assms(2) have "error_500 res \<and> (\<exists>label. ErrorExn label e \<in> set (console w'))"
    by (cases h)
      (simp_all add: skin_analyze_rejected scan_medicine_rejected explain_diagnosis_rejected
        find_doctors_npi_rejected find_doctors_apify_rejected find_doctors_apify2_rejected
        send_customer_email_rejected)
  with x show ?thesis by simp
qed

lemma scan_medicine_without_key:
  assumes "req_method req \<noteq> ''OPTIONS''" and "json_parse p (req_text req) = Inr body"
    and "truthy (js_prop body ''image'')" and "\<not> is_set (env_get p ''LOVABLE_API_KEY'')"
  shows "fst (scan_medicine p req w) =
    Inr (json_response 500 (spread corsHeaders content_type_json)
      (error_body ''LOVABLE_API_KEY is not configured''))"
proof -
  have "\<not> nullish body" using assms(3) by (cases body) simp_all
  with assms show ?thesis
    by (simp add: scan_medicine_def scan_medicine_try_def io_defs destructure_def)
qed

lemma send_customer_email_without_key:
  assumes "req_method req \<noteq> ''OPTIONS''" and "json_parse p (req_text req) = Inr body"
    and "\<not> nullish body" and "\<not> is_set (env_get p ''RESEND_API_KEY'')"
  shows "fst (send_customer_email b p req w) =
    Inr (json_response 500 (spread content_type_json corsHeaders)
      (error_body ''RESEND_API_KEY not configured''))"
  using assms
  by (simp add: send_customer_email_def send_customer_email_try_def io_defs destructure_def)

lemma send_failure_caught:
  assumes "requests (snd (run (send_customer_email b p req))) = [r]"
    and "network p 0 r = Responded u" and "\<not> ok u"
  shows "error_500 (fst (run (send_customer_email b p req)))"
proof -
  obtain res w' where x: "run (send_customer_email b p req) = (res, w')"
    by (cases "run (send_customer_email b p req)")
  with assms have "requests w' = [r]" by simp
  from send_customer_email_collapses [OF x this assms(2,3)] x show ?thesis
    by (auto simp: error_500_def)
qed

text \<open>
  C3. No handler lets an exception escape: every invocation returns a response. An
  exception raised in the \<^verbatim>\<open>try\<close> block of a handler is logged by the catch block,
  which returns status 500 with a body \<^verbatim>\<open>{ "error": message }\<close>. So does, in every
  handler, a request body that cannot be read, and a \<^verbatim>\<open>fetch\<close> that the network
  rejects; and, where the handler throws them, a missing API key (scan-medicine,
  send-customer-email) and a failed send (send-customer-email).
\<close>

theorem exceptions_are_caught:
  "(\<exists>resp. fst (handle h p req w) = Inr resp)
   \<and> (enters_try h req \<and> try_block h p req w = (Inl e, w1)
      \<longrightarrow> error_500 (fst (handle h p req w))
        \<and> (\<exists>label. snd (handle h p req w) = w1\<lparr>console := console w1 @ [ErrorExn label e]\<rparr>))
   \<and> (enters_try h req
        \<and> (if reads_json h then json_parse p (req_text req) = Inl e else req_form req = Inl e)
      \<longrightarrow> error_500 (fst (handle h p req w)))
   \<and> (requests (snd (run (handle h p req))) = [r] \<and> network p 0 r = Rejected e
      \<longrightarrow> error_500 (fst (run (handle h p req)))
        \<and> (\<exists>label. ErrorExn label e \<in> set (console (snd (run (handle h p req))))))
   \<and> (req_method req \<noteq> ''OPTIONS'' \<and> json_parse p (req_text req) = Inr body
        \<and> truthy (js_prop body ''image'') \<and> \<not> is_set (env_get p ''LOVABLE_API_KEY'')
      \<longrightarrow> error_500 (fst (scan_medicine p req w)))
   \<and> (req_method req \<noteq> ''OPTIONS'' \<and> json_parse p (req_text req) = Inr body
        \<and> \<not> nullish body \<and> \<not> is_set (env_get p ''RESEND_API_KEY'')
      \<longrightarrow> error_500 (fst (send_customer_email b p req w)))
   \<and> (requests (snd (run (send_customer_email b p req))) = [r] \<and> network p 0 r = Responded u
        \<and> \<not> ok u
      \<longrightarrow> error_500 (fst (run (send_customer_email b p req))))"
proof (intro conjI impI; (elim conjE)?)
  show "\<exists>resp. fst (handle h p req w) = Inr resp" by (rule handle_total)
next
  assume "enters_try h req" "try_block h p req w = (Inl e, w1)"
  then have c: "error_500 (fst (handle h p req w))
      \<and> (\<exists>label. snd (handle h p req w) = w1\<lparr>console := console w1 @ [ErrorExn label e]\<rparr>)"
    by (rule try_block_caught)
  from c show "error_500 (fst (handle h p req w))" by (rule conjunct1)
  from c show "\<exists>label. snd (handle h p req w) = w1\<lparr>console := console w1 @ [ErrorExn label e]\<rparr>"
    by (rule conjunct2)
next
  assume "enters_try h req"
    "if reads_json h then json_parse p (req_text req) = Inl e else req_form req = Inl e"
  then show "error_500 (fst (handle h p req w))" by (rule unreadable_body)
next
  assume "requests (snd (run (handle h p req))) = [r]" "network p 0 r = Rejected e"
  then have c: "error_500 (fst (run (handle h p req)))
      \<and> (\<exists>label. ErrorExn label e \<in> set (console (snd (run (handle h p req)))))"
    by (rule rejected_fetch)
  from c show "error_500 (fst (run (handle h p req)))" by (rule conjunct1)
  from c show "\<exists>label. ErrorExn label e \<in> set (console (snd (run (handle h p req))))"
    by (rule conjunct2)
next
  assume "req_method req \<noteq> ''OPTIONS''" "json_parse p (req_text req) = Inr body"
    "truthy (js_prop body ''image'')" "\<not> is_set (env_get p ''LOVABLE_API_KEY'')"
  then show "error_500 (fst (scan_medicine p req w))"
    by (simp add: scan_medicine_without_key error_500_def json_response_def error_body_def)
next
  assume "req_method req \<noteq> ''OPTIONS''" "json_parse p (req_text req) = Inr body"
    "\<not> nullish body" "\<not> is_set (env_get p ''RESEND_API_KEY'')"
  then show "error_500 (fst (send_customer_email b p req w))"
    by (simp add: send_customer_email_without_key error_500_def json_response_def error_body_def)
next
  assume "requests (snd (run (send_customer_email b p req))) = [r]" "network p 0 r = Responded u"
    "\<not> ok u"
  then show "error_500 (fst (run (send_customer_email b p req)))" by (rule send_failure_caught)
qed

theorem exceptions_are_caught_witness:
  "enters_try FindDoctorsNpi (post_json city_text)
   \<and> requests (snd (run (handle FindDoctorsNpi
        (demo_platform [] (\<lambda>n r. Rejected (JsTypeError ''error sending request'')))
        (post_json city_text))))
     = [\<lparr>out_url = npi_registry, out_auth = None, out_args = [(''city'', JStr ''Pune'')]\<rparr>]
   \<and> error_500 (fst (run (handle FindDoctorsNpi
        (demo_platform [] (\<lambda>n r. Rejected (JsTypeError ''error sending request'')))
        (post_json city_text))))
   \<and> try_block ScanMedicine (demo_platform [] (answers 200 [])) (post_json ''not json'') world0
     = (Inl (JsSyntaxError ''Unexpected token''), world0)
   \<and> (\<exists>label. snd (handle ScanMedicine (demo_platform [] (answers 200 [])) (post_json ''not json'') world0)
     = world0\<lparr>console := console world0 @ [ErrorExn label (JsSyntaxError ''Unexpected token'')]\<rparr>)"
proof -
  let ?p = "demo_platform [] (\<lambda>n r. Rejected (JsTypeError ''error sending request''))"
  let ?q = "demo_platform [] (answers 200 [])"
  let ?r = "\<lparr>out_url = npi_registry, out_auth = None, out_args = [(''city'', JStr ''Pune'')]\<rparr>"
  let ?u = "\<lparr>up_status = 200, up_text = []\<rparr>"
  have a: "requests (snd (run (handle FindDoctorsNpi ?p (post_json city_text)))) = [?r]"
    by (simp add: run_defs demo_defs destructure_def npi_params_def and_then_def to_str_def)
  have b: "network ?p 0 ?r = Rejected (JsTypeError ''error sending request'')"
    by (simp add: demo_platform_def)
  have c: "try_block ScanMedicine ?q (post_json ''not json'') world0
     = (Inl (JsSyntaxError ''Unexpected token''), world0)"
    by (simp add: scan_medicine_try_def io_defs demo_defs)
  have d: "enters_try ScanMedicine (post_json ''not json'')"
    by (simp add: post_json_def)
  have d': "enters_try FindDoctorsNpi (post_json city_text)"
    by (simp add: post_json_def)
  note t = exceptions_are_caught [of FindDoctorsNpi ?p "post_json city_text" world0
      "JsTypeError ''error sending request''" world0 ?r JNull False ?u]
  note t4 = t [THEN conjunct2, THEN conjunct2, THEN conjunct2, THEN conjunct1]
  have e: "error_500 (fst (run (handle FindDoctorsNpi ?p (post_json city_text))))"
    using t4 a b by simp
  note s = exceptions_are_caught [of ScanMedicine ?q "post_json ''not json''" world0
      "JsSyntaxError ''Unexpected token''" world0 ?r JNull False ?u]
  note s2 = s [THEN conjunct2, THEN conjunct1]
  have f: "\<exists>label. snd (handle ScanMedicine ?q (post_json ''not json'') world0)
     = world0\<lparr>console := console world0 @ [ErrorExn label (JsSyntaxError ''Unexpected token'')]\<rparr>"
    using s2 c d by simp
  from d' a e c f show ?thesis by (intro conjI)
qed

subsection \<open>The explanation that is not JSON\<close>

lemma explain_diagnosis_fallback:
  assumes "run (explain_diagnosis p req) = (res, w')" and "requests w' = [r]"
    and "network p 0 r = Responded u" and "ok u"
    and "json_parse p (up_text u) = Inr payload"
    and "nonempty_string (message_content payload) = Some content"
    and "json_parse p content = Inl e"
    and "json_parse p (req_text req) = Inr body" and "\<not> truthy (js_prop body ''question'')"
  shows "res = Inr (json_response 200 (spread baseCorsHeaders content_type_json)
    (explanation_fallback content))"
  using assms
  by (auto simp add: run_def world0_def explain_diagnosis_def explain_diagnosis_try_def io_defs
      split: sum.splits option.splits fetch_outcome.splits if_splits)

text \<open>
  C8, as the code has it. In explain-diagnosis, when the gateway answers the request of
  an initial explanation (no question, or a falsy one) with a 2xx status and a message
  content that is a non-empty string and does not parse as JSON, the handler returns
  status 200 with the content as the explanation and the fixed remaining fields.
\<close>

theorem explanation_fallback_returned:
  assumes "requests (snd (run (explain_diagnosis p req))) = [r]"
    and "network p 0 r = Responded u" and "ok u"
    and "json_parse p (up_text u) = Inr payload"
    and "message_content payload = JStr content" and "content \<noteq> []"
    and "json_parse p content = Inl e"
    and "json_parse p (req_text req) = Inr body" and "\<not> truthy (js_prop body ''question'')"
  shows "fst (run (explain_diagnosis p req)) =
    Inr \<lparr>resp_status = 200, resp_headers = spread baseCorsHeaders content_type_json,
      resp_body = Some (JObj [(''explanation'', JStr content),
                              (''recommendations'', JArr []),
                              (''causes'', JArr []),
                              (''precautions'', JArr []),
                              (''severity'', JStr ''Unknown''),
                              (''suggestedDoctor'', JStr ''Dermatologist'')])\<rparr>"
proof -
  obtain res w' where x: "run (explain_diagnosis p req) = (res, w')"
    by (cases "run (explain_diagnosis p req)")
  with assms(1) have s: "requests w' = [r]" by simp
  have n: "nonempty_string (message_content payload) = Some content"
    using assms(5,6) by (simp add: nonempty_string_def)
  from explain_diagnosis_fallback [OF x s assms(2-4) n assms(7-9)] x show ?thesis
    by (simp add: json_response_def explanation_fallback_def)
qed

theorem explanation_fallback_returned_witness:
  "requests (snd (run (explain_diagnosis (demo_platform all_keys (answers 200 prose_content_text))
      (post_json disease_text))))
     = [\<lparr>out_url = ai_gateway, out_auth = Some ''k1'',
         out_args = [(''language'', JStr ''english''), (''disease'', JStr ''Eczema''),
                     (''confidence'', JUndefined), (''symptoms'', JUndefined),
                     (''question'', JUndefined)]\<rparr>]
   \<and> json_parse (demo_platform all_keys (answers 200 prose_content_text)) ''It is a rash.''
     = Inl (JsSyntaxError ''Unexpected token'')
   \<and> fst (run (explain_diagnosis (demo_platform all_keys (answers 200 prose_content_text))
      (post_json disease_text)))
     = Inr \<lparr>resp_status = 200, resp_headers = spread baseCorsHeaders content_type_json,
         resp_body = Some (JObj [(''explanation'', JStr ''It is a rash.''),
                                 (''recommendations'', JArr []),
                                 (''causes'', JArr []),
                                 (''precautions'', JArr []),
                                 (''severity'', JStr ''Unknown''),
                                 (''suggestedDoctor'', JStr ''Dermatologist'')])\<rparr>"
proof -
  let ?p = "demo_platform all_keys (answers 200 prose_content_text)"
  let ?r = "\<lparr>out_url = ai_gateway, out_auth = Some ''k1'',
         out_args = [(''language'', JStr ''english''), (''disease'', JStr ''Eczema''),
                     (''confidence'', JUndefined), (''symptoms'', JUndefined),
                     (''question'', JUndefined)]\<rparr>"
  let ?u = "\<lparr>up_status = 200, up_text = prose_content_text\<rparr>"
  let ?payload = "JObj [(''choices'', JArr [JObj [(''message'', JObj [(''content'', JStr ''It is a rash.'')])]])]"
  let ?body = "JObj [(''disease'', JStr ''Eczema'')]"
  have a: "requests (snd (run (explain_diagnosis ?p (post_json disease_text)))) = [?r]"
    by (simp add: run_defs demo_defs is_set_def destructure_def default_to_def explain_prompts_def
        and_then_def to_str_def or_js_def ok_def nonempty_string_def message_content_def
        opt_get_def opt_index0_def)
  have b: "network ?p 0 ?r = Responded ?u" by (simp add: demo_platform_def answers_def)
  have c: "ok ?u" by (simp add: ok_def)
  have d: "json_parse ?p (up_text ?u) = Inr ?payload" by (simp add: demo_defs)
  have e: "message_content ?payload = JStr ''It is a rash.''"
    by (simp add: message_content_def opt_get_def opt_index0_def)
  have f: "''It is a rash.'' \<noteq> []" by simp
  have g: "json_parse ?p ''It is a rash.'' = Inl (JsSyntaxError ''Unexpected token'')"
    by (simp add: demo_defs)
  have h: "json_parse ?p (req_text (post_json disease_text)) = Inr ?body" by (simp add: demo_defs)
  have i: "\<not> truthy (js_prop ?body ''question'')" by simp
  from explanation_fallback_returned [OF a b c d e f g h i] a g show ?thesis by simp
qed

text \<open>
  C8 as stated fails for the empty content: it does not parse as JSON, and the handler
  answers 502.
\<close>

theorem explanation_fallback_counterexample:
  "json_parse (demo_platform all_keys (answers 200 empty_content_text))
      (up_text \<lparr>up_status = 200, up_text = empty_content_text\<rparr>)
     = Inr (JObj [(''choices'', JArr [JObj [(''message'', JObj [(''content'', JStr [])])]])])
   \<and> message_content (JObj [(''choices'', JArr [JObj [(''message'', JObj [(''content'', JStr [])])]])])
     = JStr []
   \<and> json_parse (demo_platform all_keys (answers 200 empty_content_text)) []
     = Inl (JsSyntaxError ''Unexpected token'')
   \<and> fst (run (handle ExplainDiagnosis (demo_platform all_keys (answers 200 empty_content_text))
        (post_json disease_text)))
     = Inr (json_response 502 (spread baseCorsHeaders content_type_json)
         (error_body ''Invalid AI response''))"
  by (simp add: run_defs demo_defs is_set_def destructure_def default_to_def explain_prompts_def
      and_then_def to_str_def or_js_def ok_def nonempty_string_def message_content_def
      opt_get_def opt_index0_def)

subsection \<open>The image as a data URL\<close>






subsection \<open>Doctor records\<close>

lemma npi_doctor_fields:
  assumes "npi_doctor p result = Inr d" and "npi_address result = Inr a"
  shows "js_prop d ''address'' = or_js (js_prop a ''address_1'') (JStr ''Address not available'')"
    and "js_prop d ''phone'' = or_js (js_prop a ''telephone_number'') (JStr ''Not available'')"
    and "js_prop d ''specialty'' =
      or_js (opt_get (opt_index0 (js_prop result ''taxonomies'')) ''desc'') (JStr ''Dermatology'')"
    and "js_prop d ''city'' = or_js (js_prop a ''city'') (JStr [])"
    and "js_prop d ''state'' = or_js (js_prop a ''state'') (JStr [])"
    and "js_prop a ''postal_code'' = JUndefined \<Longrightarrow> js_prop d ''zip'' = JStr []"
proof -
  from assms obtain name zip5 where d: "d = JObj
      [(''name'', name),
       (''specialty'',
          or_js (opt_get (opt_index0 (js_prop result ''taxonomies'')) ''desc'') (JStr ''Dermatology'')),
       (''address'', or_js (js_prop a ''address_1'') (JStr ''Address not available'')),
       (''city'', or_js (js_prop a ''city'') (JStr [])),
       (''state'', or_js (js_prop a ''state'') (JStr [])),
       (''zip'', or_js zip5 (JStr [])),
       (''phone'', or_js (js_prop a ''telephone_number'') (JStr ''Not available''))]"
    and z: "(if nullish (js_prop a ''postal_code'') then Inr JUndefined
             else substring5 (js_prop a ''postal_code'')) = Inr zip5"
    by (auto simp add: npi_doctor_def and_then_def Let_def split: sum.splits)
  show "js_prop d ''address'' = or_js (js_prop a ''address_1'') (JStr ''Address not available'')"
    by (simp add: d)
  show "js_prop d ''phone'' = or_js (js_prop a ''telephone_number'') (JStr ''Not available'')"
    by (simp add: d)
  show "js_prop d ''specialty'' =
      or_js (opt_get (opt_index0 (js_prop result ''taxonomies'')) ''desc'') (JStr ''Dermatology'')"
    by (simp add: d)
  show "js_prop d ''city'' = or_js (js_prop a ''city'') (JStr [])"
    by (simp add: d)
  show "js_prop d ''state'' = or_js (js_prop a ''state'') (JStr [])"
    by (simp add: d)
  show "js_prop d ''zip'' = JStr []" if "js_prop a ''postal_code'' = JUndefined"
    using that z by (simp add: d or_js_def)
qed

lemma apify_doctor_fields:
  assumes "apify_doctor p city place = Inr d"
  shows "js_prop d ''name'' =
      or_js (or_js (js_prop place ''title'') (js_prop place ''name'')) (JStr ''Unknown'')"
    and "js_prop d ''address'' =
      or_js (or_js (or_js (js_prop place ''address'') (js_prop place ''street''))
                   (opt_get (js_prop place ''location'') ''address''))
            (JStr ''Address not available'')"
  using assms
  by (auto simp add: apify_doctor_def and_then_def Let_def split: sum.splits)

lemma apify_doctor2_fields:
  assumes "apify_doctor2 city place = Inr d"
  shows "js_prop d ''name'' =
      or_js (or_js (js_prop place ''title'') (js_prop place ''name'')) (JStr ''Unknown'')"
    and "js_prop d ''address'' =
      or_js (or_js (js_prop place ''address'') (js_prop place ''street''))
            (JStr ''Address not available'')"
  using assms
  by (auto simp add: apify_doctor2_def and_then_def js_get_def split: sum.splits if_splits)

lemma or_js_undefined: "or_js JUndefined v = v"
  by (simp add: or_js_def)

text \<open>
  C5. In a doctor record built from a result of the NPI registry, with \<open>a\<close> the address
  that the handler selects (the first one whose purpose is \<open>LOCATION\<close>, else the first,
  else an empty object): an absent \<open>address_1\<close> gives the address
  \<open>Address not available\<close>, an absent telephone number the phone \<open>Not available\<close>, an
  absent description of the first taxonomy the specialty \<open>Dermatology\<close>, and an absent
  city, state or postal code the empty string. In a record built from a place of the
  scraper (both versions), a place with neither title nor name is named \<open>Unknown\<close>, and
  one without any of the address fields read has the address \<open>Address not available\<close>.
  The doctor finder component builds its records with the expressions of the NPI
  handler.
\<close>

theorem absent_fields_default:
  "(npi_doctor p result = Inr d \<and> npi_address result = Inr a \<longrightarrow>
      (js_prop a ''address_1'' = JUndefined \<longrightarrow> js_prop d ''address'' = JStr ''Address not available'')
    \<and> (js_prop a ''telephone_number'' = JUndefined \<longrightarrow> js_prop d ''phone'' = JStr ''Not available'')
    \<and> (opt_get (opt_index0 (js_prop result ''taxonomies'')) ''desc'' = JUndefined
         \<longrightarrow> js_prop d ''specialty'' = JStr ''Dermatology'')
    \<and> (js_prop a ''city'' = JUndefined \<longrightarrow> js_prop d ''city'' = JStr [])
    \<and> (js_prop a ''state'' = JUndefined \<longrightarrow> js_prop d ''state'' = JStr [])
    \<and> (js_prop a ''postal_code'' = JUndefined \<longrightarrow> js_prop d ''zip'' = JStr []))
   \<and> (apify_doctor p city place = Inr d1 \<longrightarrow>
      (js_prop place ''title'' = JUndefined \<and> js_prop place ''name'' = JUndefined
         \<longrightarrow> js_prop d1 ''name'' = JStr ''Unknown'')
    \<and> (js_prop place ''address'' = JUndefined \<and> js_prop place ''street'' = JUndefined
         \<and> opt_get (js_prop place ''location'') ''address'' = JUndefined
         \<longrightarrow> js_prop d1 ''address'' = JStr ''Address not available''))
   \<and> (apify_doctor2 city place = Inr d2 \<longrightarrow>
      (js_prop place ''title'' = JUndefined \<and> js_prop place ''name'' = JUndefined
         \<longrightarrow> js_prop d2 ''name'' = JStr ''Unknown'')
    \<and> (js_prop place ''address'' = JUndefined \<and> js_prop place ''street'' = JUndefined
         \<longrightarrow> js_prop d2 ''address'' = JStr ''Address not available''))"
proof (intro conjI impI; (elim conjE)?)
  assume n: "npi_doctor p result = Inr d" "npi_address result = Inr a"
  note f = npi_doctor_fields [OF n]
  show "js_prop d ''address'' = JStr ''Address not available''" if "js_prop a ''address_1'' = JUndefined"
    using that f(1) by (simp add: or_js_undefined)
  show "js_prop d ''phone'' = JStr ''Not available''" if "js_prop a ''telephone_number'' = JUndefined"
    using that f(2) by (simp add: or_js_undefined)
  show "js_prop d ''specialty'' = JStr ''Dermatology''"
    if "opt_get (opt_index0 (js_prop result ''taxonomies'')) ''desc'' = JUndefined"
    using that f(3) by (simp add: or_js_undefined)
  show "js_prop d ''city'' = JStr []" if "js_prop a ''city'' = JUndefined"
    using that f(4) by (simp add: or_js_undefined)
  show "js_prop d ''state'' = JStr []" if "js_prop a ''state'' = JUndefined"
    using that f(5) by (simp add: or_js_undefined)
  show "js_prop d ''zip'' = JStr []" if "js_prop a ''postal_code'' = JUndefined"
    using that by (rule f(6))
next
  assume n: "apify_doctor p city place = Inr d1"
  note f = apify_doctor_fields [OF n]
  show "js_prop d1 ''name'' = JStr ''Unknown''"
    if "js_prop place ''title'' = JUndefined" "js_prop place ''name'' = JUndefined"
    using that f(1) by (simp add: or_js_undefined)
  show "js_prop d1 ''address'' = JStr ''Address not available''"
    if "js_prop place ''address'' = JUndefined" "js_prop place ''street'' = JUndefined"
      "opt_get (js_prop place ''location'') ''address'' = JUndefined"
    using that f(2) by (simp add: or_js_undefined)
next
  assume n: "apify_doctor2 city place = Inr d2"
  note f = apify_doctor2_fields [OF n]
  show "js_prop d2 ''name'' = JStr ''Unknown''"
    if "js_prop place ''title'' = JUndefined" "js_prop place ''name'' = JUndefined"
    using that f(1) by (simp add: or_js_undefined)
  show "js_prop d2 ''address'' = JStr ''Address not available''"
    if "js_prop place ''address'' = JUndefined" "js_prop place ''street'' = JUndefined"
    using that f(2) by (simp add: or_js_undefined)
qed

theorem absent_fields_default_witness:
  "npi_doctor (demo_platform [] (answers 200 []))
      (JObj [(''basic'', JObj [(''first_name'', JStr ''Ada''), (''last_name'', JStr ''Lovelace'')])])
     = Inr (JObj [(''name'', JStr ''Dr. Ada Lovelace''),
                  (''specialty'', JStr ''Dermatology''),
                  (''address'', JStr ''Address not available''),
                  (''city'', JStr []),
                  (''state'', JStr []),
                  (''zip'', JStr []),
                  (''phone'', JStr ''Not available'')])
   \<and> npi_address (JObj [(''basic'', JObj [(''first_name'', JStr ''Ada''), (''last_name'', JStr ''Lovelace'')])])
     = Inr (JObj [])
   \<and> (\<exists>d1. apify_doctor (demo_platform [] (answers 200 [])) JUndefined (JObj []) = Inr d1
        \<and> js_prop d1 ''name'' = JStr ''Unknown''
        \<and> js_prop d1 ''address'' = JStr ''Address not available'')
   \<and> (\<exists>d2. apify_doctor2 JUndefined (JObj []) = Inr d2
        \<and> js_prop d2 ''name'' = JStr ''Unknown''
        \<and> js_prop d2 ''address'' = JStr ''Address not available'')"
proof -
  let ?p = "demo_platform [] (answers 200 [])"
  let ?result = "JObj [(''basic'', JObj [(''first_name'', JStr ''Ada''), (''last_name'', JStr ''Lovelace'')])]"
  let ?d = "JObj [(''name'', JStr ''Dr. Ada Lovelace''),
                  (''specialty'', JStr ''Dermatology''),
                  (''address'', JStr ''Address not available''),
                  (''city'', JStr []),
                  (''state'', JStr []),
                  (''zip'', JStr []),
                  (''phone'', JStr ''Not available'')]"
  have b: "npi_address ?result = Inr (JObj [])"
    by (simp add: npi_address_def addresses_find_def and_then_def or_js_def opt_index0_def)
  have a: "npi_doctor ?p ?result = Inr ?d"
    by (simp add: npi_doctor_def b and_then_def js_get_def or_js_def to_str_def opt_get_def
        opt_index0_def Let_def)
  obtain d1 where c: "apify_doctor ?p JUndefined (JObj []) = Inr d1"
    by (simp add: apify_doctor_def googleMapsLink_def and_then_def js_get_def opt_get_def)
  obtain d2 where e: "apify_doctor2 JUndefined (JObj []) = Inr d2"
    by (simp add: apify_doctor2_def and_then_def js_get_def)
  note t = absent_fields_default [of ?p ?result ?d "JObj []" JUndefined "JObj []" d1 d2]
  from t [THEN conjunct2, THEN conjunct1] c
  have f: "js_prop d1 ''name'' = JStr ''Unknown'' \<and> js_prop d1 ''address'' = JStr ''Address not available''"
    by (simp add: opt_get_def)
  from t [THEN conjunct2, THEN conjunct2] e
  have g: "js_prop d2 ''name'' = JStr ''Unknown'' \<and> js_prop d2 ''address'' = JStr ''Address not available''"
    by simp
  from a b c e f g show ?thesis by simp
qed

subsection \<open>The chat widget\<close>

lemmas chat_defs = handleSend_def handleIssueSubmit_def handleEmailSubmit_def email_sent_def
  email_failed_def addMessage_def setTimeout_def email_form_shown_def Let_def

lemma mentions_issue_nonempty: "mentions_issue (toLowerCase t) \<Longrightarrow> t \<noteq> []"
  by (auto simp add: mentions_issue_def toLowerCase_def)

lemma fire_keeps:
  "timers (fire c s) = timers s"
  "invocations (fire c s) = invocations s"
  "reportedIssue s = [] \<Longrightarrow> reportedIssue (fire c s) = []"
  by (cases c; simp add: addMessage_def)+

lemma fire_phase:
  "isReportingIssue (fire AskForDescription s)"
  "\<not> isReportingIssue (fire (Thank e) s)"
  "reportedIssue (fire (Thank e) s) = []"
  "email (fire (Thank e) s) = []"
  by (simp_all add: addMessage_def)

lemma fold_fire_issue: "reportedIssue s = [] \<Longrightarrow> reportedIssue (fold fire cs s) = []"
  by (induction cs arbitrary: s) (simp_all add: fire_keeps)

lemma reachable_invariant:
  assumes "reachable s"
  shows "(isReportingIssue s \<or> reportedIssue s = []) \<and> (\<forall>x \<in> set (invocations s). snd x \<noteq> [])"
  using assms
proof (induction rule: reachable.induct)
  case reachable_init
  show ?case by (simp add: initial_chat_def)
next
  case (reachable_step s e s')
  show ?case
  proof (cases e)
    case TimerFires
    with reachable_step obtain c cs where t: "timers s = c # cs" and s': "s' = fire c (s\<lparr>timers := cs\<rparr>)"
      by (auto split: list.splits)
    from reachable_step.IH show ?thesis
      unfolding s' by (cases c) (auto simp add: addMessage_def)
  qed (use reachable_step in \<open>auto simp add: chat_defs split: if_splits option.splits\<close>)
qed

lemma fold_fire_reachable:
  "reachable s \<Longrightarrow> timers s = cs \<Longrightarrow> reachable (fold fire cs (s\<lparr>timers := []\<rparr>))"
proof (induction cs arbitrary: s)
  case Nil
  have "s\<lparr>timers := timers s\<rparr> = s" by simp
  then have "s\<lparr>timers := []\<rparr> = s" using Nil.prems(2) by simp
  with Nil.prems(1) show ?case by simp
next
  case (Cons c cs)
  let ?s1 = "fire c (s\<lparr>timers := cs\<rparr>)"
  have "step s TimerFires = Some ?s1" using Cons.prems(2) by simp
  with Cons.prems(1) have r: "reachable ?s1" by (rule reachable_step)
  have t: "timers ?s1 = cs" by (simp add: fire_keeps)
  have e: "?s1\<lparr>timers := []\<rparr> = fire c (s\<lparr>timers := []\<rparr>)"
    by (cases c) (simp_all add: addMessage_def)
  from Cons.IH [OF r t] show ?case by (simp add: e)
qed

lemma settle_reachable: "reachable s \<Longrightarrow> reachable (settle s)"
  by (simp add: settle_def fold_fire_reachable)

lemma keyword_starts_report:
  assumes "reachable s" and "phase_of s = Browsing"
    and "mentions_issue (toLowerCase (trim (input s)))"
  shows "step s PressSend = Some (handleSend s)"
    and "phase_of (settle (handleSend s)) = ReportingIssue"
proof -
  have b: "\<not> isReportingIssue s" using assms(2) by (simp add: phase_of_def split: if_splits)
  then have i: "reportedIssue s = []" using reachable_invariant [OF assms(1)] by simp
  have n: "trim (input s) \<noteq> []" using assms(3) by (rule mentions_issue_nonempty)
  show "step s PressSend = Some (handleSend s)" using b by (simp add: email_form_shown_def)
  have t: "timers (handleSend s) = timers s @ [AskForDescription]"
    and r: "reportedIssue (handleSend s) = []"
    using n assms(3) i by (simp_all add: chat_defs Let_def)
  let ?s1 = "fold fire (timers s) ((handleSend s)\<lparr>timers := []\<rparr>)"
  have s: "settle (handleSend s) = fire AskForDescription ?s1"
    by (simp add: settle_def t)
  have "reportedIssue ?s1 = []" using r by (simp add: fold_fire_issue)
  then have "reportedIssue (fire AskForDescription ?s1) = []" by (rule fire_keeps(3))
  then show "phase_of (settle (handleSend s)) = ReportingIssue"
    unfolding s by (simp add: phase_of_def fire_phase(1))
qed

lemma description_recorded:
  assumes "phase_of s = ReportingIssue" and "trim (input s) \<noteq> []"
  shows "step s PressSend = Some (handleIssueSubmit s)"
    and "phase_of (handleIssueSubmit s) = CollectingEmail"
    and "reportedIssue (handleIssueSubmit s) = trim (input s)"
  using assms by (simp_all add: phase_of_def chat_defs split: if_splits)

lemma email_sent_resets:
  assumes "phase_of s = CollectingEmail" and "\<not> isSending s"
    and "trim (email s) \<noteq> []" and "str_includes (email s) ''@''"
  shows "step s PressSendEmail = Some (handleEmailSubmit s)"
    and "last (invocations (handleEmailSubmit s)) = (trim (email s), reportedIssue s)"
    and "step (handleEmailSubmit s) EmailSent = Some (email_sent (email s) (handleEmailSubmit s))"
    and "phase_of (settle (email_sent (email s) (handleEmailSubmit s))) = Browsing"
    and "reportedIssue (settle (email_sent (email s) (handleEmailSubmit s))) = []"
    and "email (settle (email_sent (email s) (handleEmailSubmit s))) = []"
proof -
  let ?s2 = "email_sent (email s) (handleEmailSubmit s)"
  have c: "isReportingIssue s" "reportedIssue s \<noteq> []"
    using assms(1) by (simp_all add: phase_of_def split: if_splits)
  show "step s PressSendEmail = Some (handleEmailSubmit s)"
    using c assms(2) by (simp add: email_form_shown_def)
  show "last (invocations (handleEmailSubmit s)) = (trim (email s), reportedIssue s)"
    using assms(3,4) by (simp add: chat_defs)
  show "step (handleEmailSubmit s) EmailSent = Some ?s2"
    using assms(3,4) by (simp add: handleEmailSubmit_def addMessage_def)
  have t: "timers ?s2 = timers s @ [Thank (email s)]"
    using assms(3,4) by (simp add: chat_defs)
  let ?s3 = "fold fire (timers s) (?s2\<lparr>timers := []\<rparr>)"
  have s: "settle ?s2 = fire (Thank (email s)) ?s3"
    by (simp add: settle_def t)
  show "phase_of (settle ?s2) = Browsing"
    unfolding s by (simp add: phase_of_def fire_phase(2))
  show "reportedIssue (settle ?s2) = []" unfolding s by (rule fire_phase(3))
  show "email (settle ?s2) = []" unfolding s by (rule fire_phase(4))
qed

lemma no_stage_skipped:
  assumes "reachable s" and "step s ev = Some s'"
  shows "phase_of s = Browsing \<Longrightarrow> phase_of s' \<noteq> CollectingEmail"
    and "phase_of s = CollectingEmail \<Longrightarrow> phase_of s' \<noteq> ReportingIssue"
proof -
  note i = reachable_invariant [OF assms(1)]
  show "phase_of s' \<noteq> CollectingEmail" if "phase_of s = Browsing"
  proof (cases ev)
    case TimerFires
    with assms(2) obtain c cs where s': "s' = fire c (s\<lparr>timers := cs\<rparr>)"
      by (auto split: list.splits)
    from that i show ?thesis
      unfolding s' by (cases c) (auto simp add: phase_of_def addMessage_def split: if_splits)
  qed (use that i assms(2) in \<open>auto simp add: phase_of_def chat_defs split: if_splits option.splits\<close>)
  show "phase_of s' \<noteq> ReportingIssue" if "phase_of s = CollectingEmail"
  proof (cases ev)
    case TimerFires
    with assms(2) obtain c cs where s': "s' = fire c (s\<lparr>timers := cs\<rparr>)"
      by (auto split: list.splits)
    from that show ?thesis
      unfolding s' by (cases c) (auto simp add: phase_of_def addMessage_def split: if_splits)
  qed (use that assms(2) in \<open>auto simp add: phase_of_def chat_defs split: if_splits option.splits\<close>)
qed

text \<open>
  The path of a report through the widget. (1) In a reachable browsing state, sending a
  message that contains an issue keyword schedules the callback after which the widget
  is in reporting-issue. (2) In reporting-issue, submitting a description that is not
  empty once trimmed records it and shows the e-mail form. (3) In collecting-email,
  submitting a valid e-mail issues the invocation with the recorded issue; when it
  succeeds, the scheduled callback returns the widget to browsing with issue and e-mail
  cleared. (4) In every reachable state every invocation issued carries an issue that is
  not empty, and a browsing state has none recorded. (5) No step of a reachable state
  leads from browsing to collecting-email or from collecting-email back to
  reporting-issue. Pending callbacks run as steps.
\<close>

theorem report_path:
  "(reachable s \<and> phase_of s = Browsing \<and> mentions_issue (toLowerCase (trim (input s)))
      \<longrightarrow> step s PressSend = Some (handleSend s)
        \<and> phase_of (settle (handleSend s)) = ReportingIssue)
   \<and> (phase_of s = ReportingIssue \<and> trim (input s) \<noteq> []
      \<longrightarrow> step s PressSend = Some (handleIssueSubmit s)
        \<and> phase_of (handleIssueSubmit s) = CollectingEmail
        \<and> reportedIssue (handleIssueSubmit s) = trim (input s))
   \<and> (phase_of s = CollectingEmail \<and> \<not> isSending s \<and> trim (email s) \<noteq> []
        \<and> str_includes (email s) ''@''
      \<longrightarrow> step s PressSendEmail = Some (handleEmailSubmit s)
        \<and> last (invocations (handleEmailSubmit s)) = (trim (email s), reportedIssue s)
        \<and> step (handleEmailSubmit s) EmailSent = Some (email_sent (email s) (handleEmailSubmit s))
        \<and> phase_of (settle (email_sent (email s) (handleEmailSubmit s))) = Browsing
        \<and> reportedIssue (settle (email_sent (email s) (handleEmailSubmit s))) = []
        \<and> email (settle (email_sent (email s) (handleEmailSubmit s))) = [])
   \<and> (reachable s
      \<longrightarrow> (\<forall>x \<in> set (invocations s). snd x \<noteq> [])
        \<and> (phase_of s = Browsing \<longrightarrow> reportedIssue s = [])
        \<and> reachable (settle s))
   \<and> (reachable s \<and> step s ev = Some s'
      \<longrightarrow> (phase_of s = Browsing \<longrightarrow> phase_of s' \<noteq> CollectingEmail)
        \<and> (phase_of s = CollectingEmail \<longrightarrow> phase_of s' \<noteq> ReportingIssue))"
proof (intro conjI impI; (elim conjE)?)
  assume a: "reachable s" "phase_of s = Browsing" "mentions_issue (toLowerCase (trim (input s)))"
  show "step s PressSend = Some (handleSend s)" using a by (rule keyword_starts_report(1))
  show "phase_of (settle (handleSend s)) = ReportingIssue" using a by (rule keyword_starts_report(2))
next
  assume a: "phase_of s = ReportingIssue" "trim (input s) \<noteq> []"
  show "step s PressSend = Some (handleIssueSubmit s)" using a by (rule description_recorded(1))
  show "phase_of (handleIssueSubmit s) = CollectingEmail" using a by (rule description_recorded(2))
  show "reportedIssue (handleIssueSubmit s) = trim (input s)" using a by (rule description_recorded(3))
next
  assume a: "phase_of s = CollectingEmail" "\<not> isSending s" "trim (email s) \<noteq> []"
    "str_includes (email s) ''@''"
  show "step s PressSendEmail = Some (handleEmailSubmit s)" using a by (rule email_sent_resets(1))
  show "last (invocations (handleEmailSubmit s)) = (trim (email s), reportedIssue s)"
    using a by (rule email_sent_resets(2))
  show "step (handleEmailSubmit s) EmailSent = Some (email_sent (email s) (handleEmailSubmit s))"
    using a by (rule email_sent_resets(3))
  show "phase_of (settle (email_sent (email s) (handleEmailSubmit s))) = Browsing"
    using a by (rule email_sent_resets(4))
  show "reportedIssue (settle (email_sent (email s) (handleEmailSubmit s))) = []"
    using a by (rule email_sent_resets(5))
  show "email (settle (email_sent (email s) (handleEmailSubmit s))) = []"
    using a by (rule email_sent_resets(6))
next
  assume r: "reachable s"
  note i = reachable_invariant [OF r]
  show "\<forall>x \<in> set (invocations s). snd x \<noteq> []" using i by (rule conjunct2)
  show "reportedIssue s = []" if "phase_of s = Browsing"
    using that i by (simp add: phase_of_def split: if_splits)
  show "reachable (settle s)" using r by (rule settle_reachable)
next
  assume a: "reachable s" "step s ev = Some s'"
  show "phase_of s' \<noteq> CollectingEmail" if "phase_of s = Browsing"
    using that by (rule no_stage_skipped(1) [OF a])
  show "phase_of s' \<noteq> ReportingIssue" if "phase_of s = CollectingEmail"
    using that by (rule no_stage_skipped(2) [OF a])
qed

lemma found_a_bug: "mentions_issue (toLowerCase (trim ''I found a Bug''))"
  by code_simp

theorem report_path_example:
  "reachable (initial_chat\<lparr>input := ''I found a Bug''\<rparr>)
   \<and> phase_of (initial_chat\<lparr>input := ''I found a Bug''\<rparr>) = Browsing
   \<and> mentions_issue (toLowerCase (trim (input (initial_chat\<lparr>input := ''I found a Bug''\<rparr>))))
   \<and> phase_of (settle (handleSend (initial_chat\<lparr>input := ''I found a Bug''\<rparr>))) = ReportingIssue
   \<and> phase_of (initial_chat\<lparr>isReportingIssue := True, input := '' it crashes ''\<rparr>) = ReportingIssue
   \<and> reportedIssue (handleIssueSubmit (initial_chat\<lparr>isReportingIssue := True, input := '' it crashes ''\<rparr>))
       = ''it crashes''
   \<and> phase_of (handleIssueSubmit (initial_chat\<lparr>isReportingIssue := True, input := '' it crashes ''\<rparr>))
       = CollectingEmail"
proof -
  let ?s = "initial_chat\<lparr>input := ''I found a Bug''\<rparr>"
  let ?t = "initial_chat\<lparr>isReportingIssue := True, input := '' it crashes ''\<rparr>"
  have "step initial_chat (TypeText ''I found a Bug'') = Some ?s"
    by (simp add: initial_chat_def email_form_shown_def)
  with reachable_init have r: "reachable ?s" by (rule reachable_step)
  have b: "phase_of ?s = Browsing" by (simp add: phase_of_def initial_chat_def)
  have m: "mentions_issue (toLowerCase (trim (input ?s)))" using found_a_bug by simp
  have p: "phase_of ?t = ReportingIssue" by (simp add: phase_of_def initial_chat_def)
  have tr: "trim (input ?t) = ''it crashes''" by (simp add: trim_def is_space_def)
  then have n: "trim (input ?t) \<noteq> []" by simp
  note w1 = report_path [of ?s undefined undefined, THEN conjunct1]
  note w2 = report_path [of ?t undefined undefined, THEN conjunct2, THEN conjunct1]
  from w1 r b m have c1: "phase_of (settle (handleSend ?s)) = ReportingIssue" by simp
  from w2 p n have c2: "phase_of (handleIssueSubmit ?t) = CollectingEmail
      \<and> reportedIssue (handleIssueSubmit ?t) = trim (input ?t)"
    by simp
  from r b m c1 p c2 tr show ?thesis by simp
qed

lemma steps_reachable: "reachable s \<Longrightarrow> steps s es = Some s' \<Longrightarrow> reachable s'"
proof (induction es arbitrary: s)
  case Nil
  then show ?case by simp
next
  case (Cons e es)
  from Cons.prems(2) obtain s1 where s1: "step s e = Some s1" and r: "steps s1 es = Some s'"
    by (auto split: option.splits)
  from Cons.prems(1) s1 have "reachable s1" by (rule reachable_step)
  from this r show ?case by (rule Cons.IH)
qed

text \<open>
  C6. The widget is not a linear wizard: the reset callback of a sent report is never
  cancelled, and between the end of the invocation and that callback the e-mail form is
  shown and enabled. When the send button is pressed a second time in that window, the
  second invocation ends after the user has begun another report, and its reset
  callback takes the widget from reporting-issue straight back to browsing; the report
  has been sent twice. The state before that step is reachable.
\<close>

theorem stale_reset_abandons_report:
  "map_option phase_of (steps initial_chat resubmitted_report) = Some ReportingIssue
   \<and> map_option timers (steps initial_chat resubmitted_report) = Some [Thank ''ann@example.org'']
   \<and> map_option invocations (steps initial_chat resubmitted_report) =
       Some [(''ann@example.org'', ''the page is blank''), (''ann@example.org'', ''the page is blank'')]
   \<and> map_option phase_of (steps initial_chat (resubmitted_report @ [TimerFires])) = Some Browsing
   \<and> (case steps initial_chat resubmitted_report of None \<Rightarrow> False | Some s \<Rightarrow> reachable s)"
proof -
  have 1: "map_option phase_of (steps initial_chat resubmitted_report) = Some ReportingIssue"
    by code_simp
  have 2: "map_option timers (steps initial_chat resubmitted_report) = Some [Thank ''ann@example.org'']"
    by code_simp
  have 3: "map_option invocations (steps initial_chat resubmitted_report) =
       Some [(''ann@example.org'', ''the page is blank''), (''ann@example.org'', ''the page is blank'')]"
    by code_simp
  have 4: "map_option phase_of (steps initial_chat (resubmitted_report @ [TimerFires])) = Some Browsing"
    by code_simp
  from 1 obtain s where s: "steps initial_chat resubmitted_report = Some s" by auto
  from reachable_init s have "reachable s" by (rule steps_reachable)
  with s have 5: "case steps initial_chat resubmitted_report of None \<Rightarrow> False | Some s \<Rightarrow> reachable s"
    by simp
  from 1 2 3 4 5 show ?thesis by simp
qed

end
